theory Spec2Isabelle
  imports Complex_Main
begin

section \<open>JavaScript strings\<close>

text \<open>
  A JavaScript string is a sequence of UTF-16 code units; a code unit is modelled as a
  natural number. \<open>str\<close> turns an ASCII literal into such a sequence.
\<close>

type_synonym jsstring = "nat list"

definition str :: "string \<Rightarrow> jsstring" where
  "str s = map of_char s"

text \<open>
  \<open>String.prototype.trim\<close> removes WhiteSpace and LineTerminator code units from both
  ends; the regular-expression class \<open>\s\<close> is the same set.
\<close>

definition is_ws :: "nat \<Rightarrow> bool" where
  "is_ws c \<longleftrightarrow>
     c = 9 \<or> c = 10 \<or> c = 11 \<or> c = 12 \<or> c = 13 \<or> c = 32 \<or> c = 160 \<or> c = 5760 \<or>
     (8192 \<le> c \<and> c \<le> 8202) \<or> c = 8232 \<or> c = 8233 \<or> c = 8239 \<or> c = 8287 \<or>
     c = 12288 \<or> c = 65279"

definition trim :: "jsstring \<Rightarrow> jsstring" where
  "trim s = rev (dropWhile is_ws (rev (dropWhile is_ws s)))"

text \<open>\<open>Array.prototype.join\<close> on an array of strings.\<close>

fun join :: "jsstring \<Rightarrow> jsstring list \<Rightarrow> jsstring" where
  "join sep [] = []"
| "join sep [x] = x"
| "join sep (x # y # ys) = x @ sep @ join sep (y # ys)"

section \<open>Streaming transcription session (\<open>startStreamingTranscribe\<close>)\<close>

text \<open>
  What \<open>ws.onmessage\<close> sees: \<open>event.data\<close> that is not a string (\<open>Binary\<close>), a string
  on which \<open>JSON.parse\<close> or the field access throws (\<open>Unparsable\<close>), or a parsed object
  with its \<open>type\<close> and \<open>text\<close> fields (\<open>None\<close> when the field is absent).
\<close>

record ws_msg =
  mtype :: "jsstring option"
  mtext :: "jsstring option"

datatype ws_data = Binary | Unparsable | Parsed ws_msg

datatype ws_event = OnMessage ws_data | OnError | OnClose

text \<open>
  The closure's variables: \<open>finalParts\<close>, \<open>resolved\<close>, and the value \<open>endPromise\<close> has
  been resolved with (\<open>None\<close> while it is pending).
\<close>

record session =
  finalParts :: "jsstring list"
  resolved :: bool
  endPromise :: "jsstring option"

definition newSession :: session where
  "newSession = \<lparr>finalParts = [], resolved = False, endPromise = None\<rparr>"

definition resolveEnd :: "jsstring \<Rightarrow> session \<Rightarrow> session" where
  "resolveEnd v s =
     (if \<not> resolved s then s\<lparr>resolved := True, endPromise := Some v\<rparr> else s)"

text \<open>\<open>msg.text\<close> as a condition: a string is truthy when it is not empty.\<close>

fun truthy_text :: "jsstring option \<Rightarrow> bool" where
  "truthy_text None = False"
| "truthy_text (Some t) = (t \<noteq> [])"

definition transcript :: "session \<Rightarrow> jsstring" where
  "transcript s = trim (join (str '' '') (finalParts s))"

definition onmessage :: "ws_data \<Rightarrow> session \<Rightarrow> session" where
  "onmessage d s =
     (case d of
        Binary \<Rightarrow> s
      | Unparsable \<Rightarrow> s
      | Parsed m \<Rightarrow>
          let s1 = (if mtype m = Some (str ''final'') \<and> truthy_text (mtext m)
                    then s\<lparr>finalParts := finalParts s @ [the (mtext m)]\<rparr> else s);
              s2 = (if mtype m = Some (str ''done'') then resolveEnd (transcript s1) s1 else s1);
              s3 = (if mtype m = Some (str ''error'') then resolveEnd [] s2 else s2)
          in s3)"

definition onerror :: "session \<Rightarrow> session" where
  "onerror s = resolveEnd [] s"

definition onclose :: "session \<Rightarrow> session" where
  "onclose s = (if \<not> resolved s then resolveEnd (transcript s) s else s)"

fun ws_handle :: "ws_event \<Rightarrow> session \<Rightarrow> session" where
  "ws_handle (OnMessage d) s = onmessage d s"
| "ws_handle OnError s = onerror s"
| "ws_handle OnClose s = onclose s"

fun ws_run :: "session \<Rightarrow> ws_event list \<Rightarrow> session" where
  "ws_run s [] = s"
| "ws_run s (e # es) = ws_run (ws_handle e s) es"

text \<open>Messages by type.\<close>

definition final_msg :: "jsstring \<Rightarrow> ws_event" where
  "final_msg t = OnMessage (Parsed \<lparr>mtype = Some (str ''final''), mtext = Some t\<rparr>)"

definition done_msg :: ws_event where
  "done_msg = OnMessage (Parsed \<lparr>mtype = Some (str ''done''), mtext = None\<rparr>)"

definition error_msg :: ws_event where
  "error_msg = OnMessage (Parsed \<lparr>mtype = Some (str ''error''), mtext = None\<rparr>)"

text \<open>An event that settles \<open>endPromise\<close> when it is still pending.\<close>

fun settles :: "ws_event \<Rightarrow> bool" where
  "settles (OnMessage (Parsed m)) =
     (mtype m = Some (str ''done'') \<or> mtype m = Some (str ''error''))"
| "settles (OnMessage _) = False"
| "settles OnError = True"
| "settles OnClose = True"

text \<open>The texts pushed to \<open>finalParts\<close>: those of the \<open>final\<close> messages with a non-empty text.\<close>

fun pushed :: "ws_event list \<Rightarrow> jsstring list" where
  "pushed [] = []"
| "pushed (OnMessage (Parsed m) # es) =
     (if mtype m = Some (str ''final'') \<and> truthy_text (mtext m)
      then the (mtext m) # pushed es else pushed es)"
| "pushed (_ # es) = pushed es"

text \<open>
  The transcript in the spec's words: every \<open>final\<close> fragment received before \<open>done\<close>,
  joined with single spaces and trimmed.
\<close>

fun fragments_before_done :: "ws_event list \<Rightarrow> jsstring list" where
  "fragments_before_done [] = []"
| "fragments_before_done (OnMessage (Parsed m) # es) =
     (if mtype m = Some (str ''done'') then []
      else if mtype m = Some (str ''final'')
        then (case mtext m of None \<Rightarrow> [] | Some t \<Rightarrow> t) # fragments_before_done es
      else fragments_before_done es)"
| "fragments_before_done (_ # es) = fragments_before_done es"

definition spec_transcript :: "ws_event list \<Rightarrow> jsstring" where
  "spec_transcript es = trim (join (str '' '') (fragments_before_done es))"

section \<open>Markdown stripping (\<open>stripMarkdownForTTS\<close>)\<close>

text \<open>
  \<open>s.replace(re, r)\<close> with a global regular expression: the string is scanned from the
  left; where the expression matches, the replacement is emitted and the scan goes on
  after the match; elsewhere the code unit is copied. A matcher gets the code unit before
  the position (for \<open>^\<close> under the \<open>m\<close> flag) and the rest of the string, and returns the
  replacement and the length of the match. None of the expressions below matches the
  empty string, so a match has at least one code unit.
\<close>

type_synonym matcher = "nat option \<Rightarrow> jsstring \<Rightarrow> (jsstring \<times> nat) option"

function replace_all :: "matcher \<Rightarrow> nat option \<Rightarrow> jsstring \<Rightarrow> jsstring" where
  "replace_all m prev [] = []"
| "replace_all m prev (c # cs) =
     (case m prev (c # cs) of
        Some (out, n) \<Rightarrow> out @ replace_all m (Some ((c # cs) ! (n - 1))) (drop (n - 1) cs)
      | None \<Rightarrow> c # replace_all m (Some c) cs)"
  by pat_completeness auto
termination
  by (relation "measure (\<lambda>(m, prev, s). length s)") auto

definition starts_with :: "jsstring \<Rightarrow> jsstring \<Rightarrow> bool" where
  "starts_with p s \<longleftrightarrow> take (length p) s = p"

text \<open>Index of the first occurrence of \<open>p\<close> in \<open>s\<close>.\<close>

fun find_sub :: "jsstring \<Rightarrow> jsstring \<Rightarrow> nat option" where
  "find_sub p [] = (if p = [] then Some 0 else None)"
| "find_sub p (c # cs) =
     (if starts_with p (c # cs) then Some 0 else map_option Suc (find_sub p cs))"

text \<open>\<open>^\<close> under the \<open>m\<close> flag: the start of the string, or just after a line terminator.\<close>

fun at_line_start :: "nat option \<Rightarrow> bool" where
  "at_line_start None = True"
| "at_line_start (Some c) = (c = 10 \<or> c = 13 \<or> c = 8232 \<or> c = 8233)"

text \<open>\<open>/```[\s\S]*?```/\<close>: the lazy body ends at the first closing fence.\<close>

definition m_codeblock :: matcher where
  "m_codeblock prev s =
     (if starts_with (str ''```'') s then
        (case find_sub (str ''```'') (drop 3 s) of
           Some k \<Rightarrow> Some (str '' '', k + 6)
         | None \<Rightarrow> None)
      else None)"

text \<open>
  \<open>/d([^x]+)d/\<close> for a delimiter \<open>d\<close> made of the code unit \<open>x\<close>: the greedy body is
  the longest run without \<open>x\<close>, it is not empty, and the delimiter follows it. The
  replacement is the body (\<open>$1\<close>, or \<open>m.slice(1, -1)\<close> for inline code).
\<close>

definition m_delim :: "jsstring \<Rightarrow> nat \<Rightarrow> matcher" where
  "m_delim d x prev s =
     (if starts_with d s then
        (let body = takeWhile (\<lambda>c. c \<noteq> x) (drop (length d) s);
             rest = drop (length d + length body) s
         in if body \<noteq> [] \<and> starts_with d rest
            then Some (body, 2 * length d + length body) else None)
      else None)"

text \<open>\<open>/^#{1,6}\s+/m\<close>.\<close>

definition m_header :: matcher where
  "m_header prev s =
     (if at_line_start prev then
        (let h = length (takeWhile (\<lambda>c. c = 35) s);
             w = length (takeWhile is_ws (drop h s))
         in if 1 \<le> h \<and> h \<le> 6 \<and> 1 \<le> w then Some ([], h + w) else None)
      else None)"

text \<open>\<open>/\[([^\]]+)\]\([^)]+\)/\<close>.\<close>

definition m_link :: matcher where
  "m_link prev s =
     (if starts_with (str ''['') s then
        (let label = takeWhile (\<lambda>c. c \<noteq> 93) (drop 1 s);
             r1 = drop (1 + length label) s;
             target = takeWhile (\<lambda>c. c \<noteq> 41) (drop 2 r1);
             r2 = drop (2 + length target) r1
         in if label \<noteq> [] \<and> starts_with (str '']('') r1 \<and> target \<noteq> [] \<and>
               starts_with (str '')'') r2
            then Some (label, length label + length target + 4) else None)
      else None)"

text \<open>\<open>/^\s*[-*+]\s+/m\<close>.\<close>

definition m_bullet :: matcher where
  "m_bullet prev s =
     (if at_line_start prev then
        (let w1 = length (takeWhile is_ws s);
             r1 = drop w1 s;
             w2 = length (takeWhile is_ws (drop 1 r1))
         in if r1 \<noteq> [] \<and> (hd r1 = 45 \<or> hd r1 = 42 \<or> hd r1 = 43) \<and> 1 \<le> w2
            then Some (str '' '', w1 + 1 + w2) else None)
      else None)"

text \<open>\<open>/^\s*\d+\.\s+/m\<close>.\<close>

definition is_digit :: "nat \<Rightarrow> bool" where
  "is_digit c \<longleftrightarrow> 48 \<le> c \<and> c \<le> 57"

definition m_numbered :: matcher where
  "m_numbered prev s =
     (if at_line_start prev then
        (let w1 = length (takeWhile is_ws s);
             n = length (takeWhile is_digit (drop w1 s));
             r1 = drop (w1 + n) s;
             w2 = length (takeWhile is_ws (drop 1 r1))
         in if 1 \<le> n \<and> starts_with (str ''.'') r1 \<and> 1 \<le> w2
            then Some (str '' '', w1 + n + 1 + w2) else None)
      else None)"

text \<open>\<open>/\n{2,}/\<close> and \<open>/[ \t]+/\<close>.\<close>

definition m_newlines :: matcher where
  "m_newlines prev s =
     (let n = length (takeWhile (\<lambda>c. c = 10) s)
      in if 2 \<le> n then Some ([10], n) else None)"

definition m_blanks :: matcher where
  "m_blanks prev s =
     (let n = length (takeWhile (\<lambda>c. c = 32 \<or> c = 9) s)
      in if 1 \<le> n then Some (str '' '', n) else None)"

definition replace :: "matcher \<Rightarrow> jsstring \<Rightarrow> jsstring" where
  "replace m s = replace_all m None s"

definition stripMarkdownForTTS :: "jsstring \<Rightarrow> jsstring" where
  "stripMarkdownForTTS text =
     (if trim text = [] then text
      else
        (let out = replace m_codeblock text;
             out = replace (m_delim (str ''`'') 96) out;
             out = replace (m_delim (str ''**'') 42) out;
             out = replace (m_delim (str ''__'') 95) out;
             out = replace (m_delim (str ''*'') 42) out;
             out = replace (m_delim (str ''_'') 95) out;
             out = replace m_header out;
             out = replace (m_delim (str ''~~'') 126) out;
             out = replace m_link out;
             out = replace m_bullet out;
             out = replace m_numbered out;
             out = trim (replace m_blanks (replace m_newlines out))
         in out))"

text \<open>The text sent to synthesis: \<open>plainForTTS || assistantContent\<close>.\<close>

definition ttsText :: "jsstring \<Rightarrow> jsstring" where
  "ttsText assistantContent =
     (let plainForTTS = stripMarkdownForTTS assistantContent
      in if plainForTTS \<noteq> [] then plainForTTS else assistantContent)"

section \<open>Voice conversation hook (\<open>useVoiceConversation\<close>)\<close>

subsection \<open>Constants\<close>

text \<open>RMS values and thresholds are real numbers; times of \<open>Date.now()\<close> are integers (ms).\<close>

definition SILENCE_RMS_THRESHOLD :: real where "SILENCE_RMS_THRESHOLD = 15 / 1000"
definition SPEECH_RMS_THRESHOLD :: real where "SPEECH_RMS_THRESHOLD = 25 / 1000"
definition BARGE_IN_ENABLED :: bool where "BARGE_IN_ENABLED = False"
definition BARGE_IN_RMS_THRESHOLD :: real where "BARGE_IN_RMS_THRESHOLD = 2 / 100"
definition SILENCE_MS :: int where "SILENCE_MS = 1000"
definition MIN_RECORDING_MS :: int where "MIN_RECORDING_MS = 600"

subsection \<open>Data\<close>

datatype role = User | Assistant | System

record TurnLatency =
  stt_ms :: int
  llm_ms :: int
  tts_ms :: int

record ChatMessage =
  role :: role
  content :: jsstring
  latency :: "TurnLatency option"

text \<open>\<open>MediaRecorder.state\<close>; the hook never pauses a recorder.\<close>

datatype recorder_state = Recording | Inactive

text \<open>Requests sent to the collaborators, in the order they are issued.\<close>

datatype request =
    TranscribeReq
  | ChatReq "ChatMessage list"
  | TtsReq jsstring
  | EndVoiceSessionReq

text \<open>
  A call of \<open>stopRecordingAndSend\<close> suspended at an \<open>await\<close>, with the local variables it
  resumes with: the start time of the awaited stage (\<open>performance.now()\<close>), the latencies
  measured so far, the reply and its \<open>endConversation\<close> flag.
\<close>

datatype phase =
    AwaitTranscribe real
  | AwaitChat int real
  | AwaitTTS int int jsstring bool real
  | AwaitPlay bool nat

record call =
  continuous :: bool
  phase :: phase

text \<open>
  An audio element that is playing, with what its \<open>onended\<close> closure captured: the object
  URL, \<open>endConversation\<close> and \<open>continuous\<close>.
\<close>

record audio =
  url :: nat
  a_endConversation :: bool
  a_continuous :: bool

text \<open>
  The hook's state: React state (\<open>isListening\<close>, \<open>isProcessing\<close>, \<open>error\<close>), the settings
  and chat stores, the refs, and what the platform holds for the hook: media streams and
  recorders, scheduled animation frames, playing audio elements, suspended calls, pending
  promises, the requests sent. \<open>streamRef\<close> and \<open>analyserRef\<close> say whether the ref is set;
  \<open>recorderRef\<close> is the state of the recorder the ref points to. \<open>messagesRef\<close> is
  synchronised with \<open>messages\<close> by an effect after every render, so one field stands for
  both. \<open>micAvailable\<close> is whether \<open>navigator.mediaDevices.getUserMedia\<close> exists.

  The source never stops a recorder or a stream it no longer holds in a ref, so the state
  counts them: \<open>strayRecorders\<close> are the recorders still recording on the stream of
  \<open>streamRef\<close> that \<open>recorderRef\<close> no longer points to; \<open>lostStreams\<close> are the streams with
  live tracks that \<open>streamRef\<close> no longer points to, and \<open>lostRecorders\<close> the recorders still
  recording on them. A recorder stops by \<open>stop()\<close> or when all tracks of its stream have
  ended.
\<close>

record hook =
  isListening :: bool
  isProcessing :: bool
  error :: "jsstring option"
  continuousVoiceMode :: bool
  micAvailable :: bool
  messages :: "ChatMessage list"
  streamRef :: bool
  recorderRef :: "recorder_state option"
  strayRecorders :: nat
  lostStreams :: nat
  lostRecorders :: nat
  chunksRef :: "nat list"
  analyserRef :: bool
  silenceStartRef :: "int option"
  hasSpokenRef :: bool
  animationRef :: "nat option"
  recordingStartRef :: "int option"
  userRequestedStopRef :: bool
  currentTTSRef :: "nat option"
  rafPending :: "nat list"
  rafNext :: nat
  playing :: "audio list"
  urlNext :: nat
  calls :: "nat \<rightharpoonup> call"
  callNext :: nat
  pendingGetUserMedia :: nat
  pendingEndVoiceSession :: nat
  requests :: "request list"

text \<open>The two clocks an event handler reads.\<close>

record clock =
  dateNow :: int
  perfNow :: real

definition initial :: "bool \<Rightarrow> bool \<Rightarrow> hook" where
  "initial cont mic =
     \<lparr>isListening = False, isProcessing = False, error = None,
      continuousVoiceMode = cont, micAvailable = mic, messages = [],
      streamRef = False, recorderRef = None, strayRecorders = 0, lostStreams = 0,
      lostRecorders = 0, chunksRef = [], analyserRef = False,
      silenceStartRef = None, hasSpokenRef = False, animationRef = None,
      recordingStartRef = None, userRequestedStopRef = False, currentTTSRef = None,
      rafPending = [], rafNext = 0, playing = [], urlNext = 0,
      calls = Map.empty, callNext = 0, pendingGetUserMedia = 0,
      pendingEndVoiceSession = 0, requests = []\<rparr>"

subsection \<open>Platform operations\<close>

text \<open>\<open>Math.round\<close>: to the nearest integer, halves towards \<open>+\<infinity>\<close>.\<close>

definition js_round :: "real \<Rightarrow> int" where
  "js_round x = \<lfloor>x + 1 / 2\<rfloor>"

definition requestAnimationFrame :: "hook \<Rightarrow> nat \<times> hook" where
  "requestAnimationFrame s =
     (rafNext s, s\<lparr>rafPending := rafPending s @ [rafNext s], rafNext := rafNext s + 1\<rparr>)"

definition cancelAnimationFrame :: "nat \<Rightarrow> hook \<Rightarrow> hook" where
  "cancelAnimationFrame i s = s\<lparr>rafPending := removeAll i (rafPending s)\<rparr>"

text \<open>\<open>audio.pause()\<close> on the element of a URL: it stops playing and will not fire \<open>ended\<close>.\<close>

definition pause :: "nat \<Rightarrow> hook \<Rightarrow> hook" where
  "pause u s = s\<lparr>playing := filter (\<lambda>a. url a \<noteq> u) (playing s)\<rparr>"

definition addMessage :: "ChatMessage \<Rightarrow> hook \<Rightarrow> hook" where
  "addMessage m s = s\<lparr>messages := messages s @ [m]\<rparr>"

definition send :: "request \<Rightarrow> hook \<Rightarrow> hook" where
  "send r s = s\<lparr>requests := requests s @ [r]\<rparr>"

text \<open>\<open>recordingStartRef.current ? Date.now() - recordingStartRef.current : 0\<close>.\<close>

definition recordingDuration :: "int \<Rightarrow> hook \<Rightarrow> int" where
  "recordingDuration now s =
     (case recordingStartRef s of
        None \<Rightarrow> 0
      | Some t \<Rightarrow> if t \<noteq> 0 then now - t else 0)"

subsection \<open>\<open>restartRecording\<close> and \<open>stopRecordingAndSend\<close>\<close>

text \<open>
  \<open>restartRecording\<close> builds and starts a new recorder on the stream; the recorder that
  \<open>recorderRef\<close> pointed to is not stopped, and goes on if it was recording.
\<close>

definition restartRecording :: "clock \<Rightarrow> hook \<Rightarrow> hook" where
  "restartRecording k s =
     (if \<not> streamRef s then s
      else
        (let s0 = (if recorderRef s = Some Recording
                   then s\<lparr>strayRecorders := strayRecorders s + 1\<rparr> else s);
             s1 = s0\<lparr>chunksRef := [], recordingStartRef := Some (dateNow k),
                      silenceStartRef := None, hasSpokenRef := False,
                      recorderRef := Some Recording\<rparr>;
             (i, s2) = requestAnimationFrame s1
         in s2\<lparr>animationRef := Some i\<rparr>))"

definition doRestart :: "bool \<Rightarrow> clock \<Rightarrow> hook \<Rightarrow> hook" where
  "doRestart cont k s =
     (if cont \<and> streamRef s \<and> \<not> userRequestedStopRef s then restartRecording k s else s)"

definition cancelAnimation :: "hook \<Rightarrow> hook" where
  "cancelAnimation s =
     (case animationRef s of
        None \<Rightarrow> s
      | Some i \<Rightarrow> (cancelAnimationFrame i s)\<lparr>animationRef := None\<rparr>)"

text \<open>The \<open>finally\<close> block, for a call that captured \<open>cont\<close> and has set \<open>endConversation\<close>.\<close>

definition finallyBlock :: "bool \<Rightarrow> bool \<Rightarrow> clock \<Rightarrow> hook \<Rightarrow> hook" where
  "finallyBlock cont endConversation k s =
     (let s1 = s\<lparr>isProcessing := False\<rparr>
      in if cont \<and> currentTTSRef s1 = None \<and> \<not> endConversation
         then doRestart cont k s1 else s1)"

text \<open>The \<open>catch\<close> block followed by \<open>finally\<close>; the suspended call \<open>c\<close> is over.\<close>

definition failed :: "nat \<Rightarrow> bool \<Rightarrow> bool \<Rightarrow> jsstring \<Rightarrow> clock \<Rightarrow> hook \<Rightarrow> hook" where
  "failed c cont endConversation msg k s =
     finallyBlock cont endConversation k (s\<lparr>error := Some msg, calls := (calls s)(c := None)\<rparr>)"

text \<open>
  \<open>stream.getTracks().forEach((t) => t.stop()); streamRef.current = null\<close>: the tracks
  end, and with them every recorder on the stream.
\<close>

definition releaseStream :: "hook \<Rightarrow> hook" where
  "releaseStream s = s\<lparr>streamRef := False, strayRecorders := 0\<rparr>"

declare releaseStream_def [simp]

text \<open>\<open>stopRecordingAndSend\<close> up to its first \<open>await\<close>.\<close>

definition stopRecordingAndSend :: "clock \<Rightarrow> hook \<Rightarrow> hook" where
  "stopRecordingAndSend k s =
     (let cont = continuousVoiceMode s in
      if userRequestedStopRef s then
        (let s1 = (case currentTTSRef s of
                     None \<Rightarrow> s
                   | Some u \<Rightarrow> (pause u s)\<lparr>currentTTSRef := None\<rparr>);
             s2 = (if recorderRef s1 = Some Recording
                   then s1\<lparr>recorderRef := Some Inactive\<rparr> else s1);
             s3 = (if streamRef s2 then releaseStream s2 else s2);
             s4 = cancelAnimation (s3\<lparr>isListening := False\<rparr>)
         in s4\<lparr>silenceStartRef := None, hasSpokenRef := False, chunksRef := []\<rparr>)
      else if recorderRef s \<noteq> Some Recording then s
      else
        (let s1 = s\<lparr>recorderRef := Some Inactive\<rparr>;
             s2 = (if \<not> cont \<and> streamRef s1 then releaseStream s1 else s1);
             s3 = (if \<not> cont then s2\<lparr>isListening := False\<rparr> else s2);
             s4 = (cancelAnimation s3)\<lparr>silenceStartRef := None, hasSpokenRef := False\<rparr>;
             chunks = chunksRef s4;
             s5 = s4\<lparr>chunksRef := []\<rparr>
         in if chunks = [] then doRestart cont k s5
            else if recordingDuration (dateNow k) s5 < MIN_RECORDING_MS then doRestart cont k s5
            else
              (let s6 = s5\<lparr>isProcessing := True, error := None\<rparr>;
                   s7 = send TranscribeReq s6
               in s7\<lparr>calls := (calls s7)(callNext s7 \<mapsto>
                                  \<lparr>continuous = cont, phase = AwaitTranscribe (perfNow k)\<rparr>),
                       callNext := callNext s7 + 1\<rparr>)))"

subsection \<open>\<open>checkVolume\<close>\<close>

text \<open>
  The voice-activity part of \<open>checkVolume\<close> (from the \<open>hasSpoken\<close> update to the silence
  timer): it updates the refs and says whether \<open>checkVolume\<close> goes on to call
  \<open>stopRecordingAndSend\<close> and return, or to request the next animation frame.
\<close>

datatype vad_action = Reschedule | StopAndSend

definition vad :: "int \<Rightarrow> real \<Rightarrow> hook \<Rightarrow> vad_action \<times> hook" where
  "vad now rms s =
     (let s1 = (if rms > SPEECH_RMS_THRESHOLD then s\<lparr>hasSpokenRef := True\<rparr> else s);
          canSend = (hasSpokenRef s1 \<and> recordingDuration now s1 \<ge> MIN_RECORDING_MS)
      in if canSend \<and> rms < SILENCE_RMS_THRESHOLD then
           (case silenceStartRef s1 of
              None \<Rightarrow> (Reschedule, s1\<lparr>silenceStartRef := Some now\<rparr>)
            | Some start \<Rightarrow>
                if now - start \<ge> SILENCE_MS then (StopAndSend, s1) else (Reschedule, s1))
         else (Reschedule, s1\<lparr>silenceStartRef := None\<rparr>))"

definition bargeIn :: "real \<Rightarrow> hook \<Rightarrow> hook" where
  "bargeIn rms s =
     (case currentTTSRef s of
        None \<Rightarrow> s
      | Some u \<Rightarrow>
          if BARGE_IN_ENABLED \<and> rms > BARGE_IN_RMS_THRESHOLD
          then (pause u s)\<lparr>currentTTSRef := None\<rparr> else s)"

definition checkVolume :: "clock \<Rightarrow> real \<Rightarrow> hook \<Rightarrow> hook" where
  "checkVolume k rms s =
     (if \<not> analyserRef s then s
      else
        (case vad (dateNow k) rms (bargeIn rms s) of
           (StopAndSend, s1) \<Rightarrow> stopRecordingAndSend k s1
         | (Reschedule, s1) \<Rightarrow>
             (let (i, s2) = requestAnimationFrame s1 in s2\<lparr>animationRef := Some i\<rparr>)))"

text \<open>
  The frames of one recording, as (time, RMS) pairs, fed to the loop until it signals the
  end of the utterance or the frames run out.
\<close>

fun vadLoop :: "hook \<Rightarrow> (int \<times> real) list \<Rightarrow> vad_action \<times> hook" where
  "vadLoop s [] = (Reschedule, s)"
| "vadLoop s (f # fs) =
     (case vad (fst f) (snd f) s of
        (StopAndSend, s') \<Rightarrow> (StopAndSend, s')
      | (Reschedule, s') \<Rightarrow> vadLoop s' fs)"

subsection \<open>\<open>startListening\<close>, \<open>stopListening\<close>, \<open>toggleVoice\<close>\<close>

definition micUnavailable :: jsstring where
  "micUnavailable =
     str (''Microphone access is not available. Use HTTPS or open the app from localhost '' @
          ''(browsers block microphone on plain HTTP from other hosts).'')"

definition startListening :: "hook \<Rightarrow> hook" where
  "startListening s =
     (let s1 = s\<lparr>userRequestedStopRef := False, error := None\<rparr>
      in if \<not> micAvailable s1
         then s1\<lparr>error := Some micUnavailable\<rparr>
         else s1\<lparr>pendingGetUserMedia := pendingGetUserMedia s1 + 1\<rparr>)"

text \<open>
  \<open>startListening\<close> after \<open>getUserMedia\<close> resolved: a new stream and a new recorder take
  the place of those in the refs, which are not stopped; its frame request is not kept in
  \<open>animationRef\<close>.
\<close>

definition startListeningResumed :: "clock \<Rightarrow> hook \<Rightarrow> hook" where
  "startListeningResumed k s =
     (let s0 = (if streamRef s
                then s\<lparr>lostStreams := lostStreams s + 1,
                       lostRecorders := lostRecorders s + strayRecorders s +
                         (if recorderRef s = Some Recording then 1 else 0),
                       strayRecorders := 0\<rparr>
                else s);
          s1 = s0\<lparr>streamRef := True, analyserRef := True, chunksRef := [],
                   recorderRef := Some Recording, recordingStartRef := Some (dateNow k),
                   silenceStartRef := None, hasSpokenRef := False, isListening := True\<rparr>
      in snd (requestAnimationFrame s1))"

definition stopListening :: "clock \<Rightarrow> hook \<Rightarrow> hook" where
  "stopListening k s = stopRecordingAndSend k (s\<lparr>userRequestedStopRef := True\<rparr>)"

definition toggleVoice :: "clock \<Rightarrow> hook \<Rightarrow> hook" where
  "toggleVoice k s = (if isListening s then stopListening k s else startListening s)"

subsection \<open>\<open>stopRecordingAndSend\<close> resumed after each \<open>await\<close>\<close>

definition transcribeDone :: "nat \<Rightarrow> call \<Rightarrow> real \<Rightarrow> jsstring option \<Rightarrow> clock \<Rightarrow> hook \<Rightarrow> hook" where
  "transcribeDone c cl tStt0 text k s =
     (let stt = js_round (perfNow k - tStt0);
          userText = map_option trim text;
          cont = continuous cl
      in if \<not> truthy_text userText then
           (let s1 = s\<lparr>isProcessing := False, calls := (calls s)(c := None)\<rparr>;
                s2 = (if cont then doRestart cont k s1 else s1)
            in finallyBlock cont False k s2)
         else
           (let m = \<lparr>role = User, content = the userText, latency = None\<rparr>;
                newMessages = messages s @ [m];
                s1 = addMessage m s;
                s2 = send (ChatReq (map (\<lambda>m. m\<lparr>latency := None\<rparr>) newMessages)) s1
            in s2\<lparr>calls := (calls s2)(c \<mapsto> cl\<lparr>phase := AwaitChat stt (perfNow k)\<rparr>)\<rparr>))"

definition chatDone :: "nat \<Rightarrow> call \<Rightarrow> int \<Rightarrow> real \<Rightarrow> jsstring \<Rightarrow> bool \<Rightarrow> clock \<Rightarrow> hook \<Rightarrow> hook" where
  "chatDone c cl stt tLlm0 assistantContent endConversation k s =
     (let llm = js_round (perfNow k - tLlm0);
          s1 = send (TtsReq (ttsText assistantContent)) s
      in s1\<lparr>calls := (calls s1)(c \<mapsto>
               cl\<lparr>phase := AwaitTTS stt llm assistantContent endConversation (perfNow k)\<rparr>)\<rparr>)"

definition ttsDone :: "nat \<Rightarrow> call \<Rightarrow> int \<Rightarrow> int \<Rightarrow> jsstring \<Rightarrow> bool \<Rightarrow> real \<Rightarrow> clock \<Rightarrow> hook \<Rightarrow> hook" where
  "ttsDone c cl stt llm assistantContent endConversation tTts0 k s =
     (let tts = js_round (perfNow k - tTts0);
          cont = continuous cl;
          s1 = addMessage \<lparr>role = Assistant, content = assistantContent,
                 latency = Some \<lparr>stt_ms = stt, llm_ms = llm, tts_ms = tts\<rparr>\<rparr> s;
          u = urlNext s1;
          a = \<lparr>url = u, a_endConversation = endConversation, a_continuous = cont\<rparr>;
          s2 = s1\<lparr>urlNext := u + 1, currentTTSRef := Some u, playing := playing s1 @ [a]\<rparr>
      in if endConversation then
           s2\<lparr>calls := (calls s2)(c \<mapsto> cl\<lparr>phase := AwaitPlay True u\<rparr>)\<rparr>
         else if cont then
           finallyBlock cont endConversation k (s2\<lparr>calls := (calls s2)(c := None)\<rparr>)
         else
           s2\<lparr>calls := (calls s2)(c \<mapsto> cl\<lparr>phase := AwaitPlay False u\<rparr>)\<rparr>)"

definition playResolved :: "nat \<Rightarrow> call \<Rightarrow> bool \<Rightarrow> clock \<Rightarrow> hook \<Rightarrow> hook" where
  "playResolved c cl endConversation k s =
     (let cont = continuous cl;
          s1 = s\<lparr>calls := (calls s)(c := None)\<rparr>;
          s2 = (if endConversation then s1 else doRestart cont k s1)
      in finallyBlock cont endConversation k s2)"

text \<open>The audio element's \<open>onended\<close> handler.\<close>

definition onended :: "audio \<Rightarrow> clock \<Rightarrow> hook \<Rightarrow> hook" where
  "onended a k s =
     (let s1 = (if currentTTSRef s = Some (url a) then s\<lparr>currentTTSRef := None\<rparr> else s)
      in if a_endConversation a then
           (let s2 = send EndVoiceSessionReq s1
            in s2\<lparr>pendingEndVoiceSession := pendingEndVoiceSession s2 + 1\<rparr>)
         else if a_continuous a then
           (if recorderRef s1 \<noteq> Some Recording then doRestart (a_continuous a) k s1 else s1)
         else s1)"

text \<open>The callback of \<open>endVoiceSession().then\<close>.\<close>

definition endVoiceSessionThen :: "clock \<Rightarrow> hook \<Rightarrow> hook" where
  "endVoiceSessionThen k s = stopRecordingAndSend k (s\<lparr>userRequestedStopRef := True\<rparr>)"

subsection \<open>Events\<close>

text \<open>
  What can happen to the hook: a click on the voice button (disabled while
  \<open>isProcessing\<close>), the settling of a promise it awaits, a recorder chunk of a given size
  (chunks arrive every 200 ms and once more after \<open>stop()\<close>), an animation frame with the
  RMS of the analyser's data, the end of an audio element. A call id that is not suspended
  at the matching \<open>await\<close>, a frame that is not pending and an audio element that is not
  playing leave the state unchanged. The hook is mounted, so \<open>stopRecordingAndSendRef\<close> is
  set. \<open>audio.play()\<close> starts the playback; where the source awaits it, its rejection is
  an event; where it does not (continuous mode), a rejection has no handler.
\<close>

datatype event =
    Click
  | GetUserMediaResolved
  | GetUserMediaRejected jsstring
  | DataAvailable nat
  | AnimationFrame nat real
  | TranscribeDone nat "jsstring option"
  | TranscribeFailed nat jsstring
  | ChatDone nat jsstring bool
  | ChatFailed nat jsstring
  | TtsDone nat
  | TtsFailed nat jsstring
  | PlayResolved nat
  | PlayRejected nat jsstring
  | AudioEnded nat
  | EndVoiceSessionResolved
  | EndVoiceSessionRejected
  | ClearError

fun step :: "clock \<Rightarrow> event \<Rightarrow> hook \<Rightarrow> hook" where
  "step k Click s = (if isProcessing s then s else toggleVoice k s)"
| "step k GetUserMediaResolved s =
     (if pendingGetUserMedia s = 0 then s
      else startListeningResumed k (s\<lparr>pendingGetUserMedia := pendingGetUserMedia s - 1\<rparr>))"
| "step k (GetUserMediaRejected msg) s =
     (if pendingGetUserMedia s = 0 then s
      else s\<lparr>pendingGetUserMedia := pendingGetUserMedia s - 1, error := Some msg\<rparr>)"
| "step k (DataAvailable sz) s =
     (if sz > 0 then s\<lparr>chunksRef := chunksRef s @ [sz]\<rparr> else s)"
| "step k (AnimationFrame i rms) s =
     (if i \<in> set (rafPending s)
      then checkVolume k rms (s\<lparr>rafPending := removeAll i (rafPending s)\<rparr>) else s)"
| "step k (TranscribeDone c text) s =
     (case calls s c of
        Some cl \<Rightarrow>
          (case phase cl of AwaitTranscribe t0 \<Rightarrow> transcribeDone c cl t0 text k s | _ \<Rightarrow> s)
      | None \<Rightarrow> s)"
| "step k (TranscribeFailed c msg) s =
     (case calls s c of
        Some cl \<Rightarrow>
          (case phase cl of AwaitTranscribe t0 \<Rightarrow> failed c (continuous cl) False msg k s | _ \<Rightarrow> s)
      | None \<Rightarrow> s)"
| "step k (ChatDone c text e) s =
     (case calls s c of
        Some cl \<Rightarrow>
          (case phase cl of AwaitChat stt t0 \<Rightarrow> chatDone c cl stt t0 text e k s | _ \<Rightarrow> s)
      | None \<Rightarrow> s)"
| "step k (ChatFailed c msg) s =
     (case calls s c of
        Some cl \<Rightarrow>
          (case phase cl of AwaitChat stt t0 \<Rightarrow> failed c (continuous cl) False msg k s | _ \<Rightarrow> s)
      | None \<Rightarrow> s)"
| "step k (TtsDone c) s =
     (case calls s c of
        Some cl \<Rightarrow>
          (case phase cl of
             AwaitTTS stt llm text e t0 \<Rightarrow> ttsDone c cl stt llm text e t0 k s
           | _ \<Rightarrow> s)
      | None \<Rightarrow> s)"
| "step k (TtsFailed c msg) s =
     (case calls s c of
        Some cl \<Rightarrow>
          (case phase cl of
             AwaitTTS stt llm text e t0 \<Rightarrow> failed c (continuous cl) e msg k s
           | _ \<Rightarrow> s)
      | None \<Rightarrow> s)"
| "step k (PlayResolved c) s =
     (case calls s c of
        Some cl \<Rightarrow> (case phase cl of AwaitPlay e u \<Rightarrow> playResolved c cl e k s | _ \<Rightarrow> s)
      | None \<Rightarrow> s)"
| "step k (PlayRejected c msg) s =
     (case calls s c of
        Some cl \<Rightarrow>
          (case phase cl of
             AwaitPlay e u \<Rightarrow> failed c (continuous cl) e msg k (pause u s)
           | _ \<Rightarrow> s)
      | None \<Rightarrow> s)"
| "step k (AudioEnded u) s =
     (case find (\<lambda>a. url a = u) (playing s) of
        Some a \<Rightarrow> onended a k (pause u s)
      | None \<Rightarrow> s)"
| "step k EndVoiceSessionResolved s =
     (if pendingEndVoiceSession s = 0 then s
      else endVoiceSessionThen k (s\<lparr>pendingEndVoiceSession := pendingEndVoiceSession s - 1\<rparr>))"
| "step k EndVoiceSessionRejected s =
     (if pendingEndVoiceSession s = 0 then s
      else s\<lparr>pendingEndVoiceSession := pendingEndVoiceSession s - 1\<rparr>)"
| "step k ClearError s = s\<lparr>error := None\<rparr>"

fun run :: "hook \<Rightarrow> (clock \<times> event) list \<Rightarrow> hook" where
  "run s [] = s"
| "run s (ke # es) = run (step (fst ke) (snd ke) s) es"

subsection \<open>End of utterance, from the frames of a recording\<close>

text \<open>
  A frame is a pair (time of \<open>Date.now()\<close>, RMS). \<open>spoken\<close>: some frame exceeded the speech
  threshold. \<open>silent\<close>: below the silence threshold. \<open>quiet\<close>: silent and observed when the
  recording, started at \<open>t0\<close>, has reached the minimum duration. \<open>trailing_run P fs\<close> is the
  longest run of frames satisfying \<open>P\<close> at the end of \<open>fs\<close>; it has \<open>lasted\<close> at time \<open>t\<close>
  when it is not empty and its first frame is at least \<open>SILENCE_MS\<close> before \<open>t\<close>.
\<close>

definition spoken :: "(int \<times> real) list \<Rightarrow> bool" where
  "spoken fs = list_ex (\<lambda>f. snd f > SPEECH_RMS_THRESHOLD) fs"

definition silent :: "int \<times> real \<Rightarrow> bool" where
  "silent f \<longleftrightarrow> snd f < SILENCE_RMS_THRESHOLD"

definition quiet :: "int \<Rightarrow> int \<times> real \<Rightarrow> bool" where
  "quiet t0 f \<longleftrightarrow> silent f \<and> fst f - t0 \<ge> MIN_RECORDING_MS"

definition trailing_run :: "('a \<Rightarrow> bool) \<Rightarrow> 'a list \<Rightarrow> 'a list" where
  "trailing_run P fs = rev (takeWhile P (rev fs))"

definition lasted :: "(int \<times> real) list \<Rightarrow> int \<Rightarrow> bool" where
  "lasted r t \<longleftrightarrow> r \<noteq> [] \<and> t - fst (hd r) \<ge> SILENCE_MS"

text \<open>
  End of utterance at frame \<open>f\<close>, after the frames \<open>fs\<close>, in the spec's words: speech was
  detected, the recording has reached the minimum duration, and the trailing run of silent
  frames has lasted the required silence duration.
\<close>

definition spec_eou :: "int \<Rightarrow> (int \<times> real) list \<Rightarrow> int \<times> real \<Rightarrow> bool" where
  "spec_eou t0 fs f \<longleftrightarrow>
     spoken fs \<and> fst f - t0 \<ge> MIN_RECORDING_MS \<and>
     lasted (trailing_run silent (fs @ [f])) (fst f)"

text \<open>
  The same with the run counted as the silence timer counts it: from the first frame of
  the trailing run that is silent and at or past the minimum duration.
\<close>

definition code_eou :: "int \<Rightarrow> (int \<times> real) list \<Rightarrow> int \<times> real \<Rightarrow> bool" where
  "code_eou t0 fs f \<longleftrightarrow>
     spoken fs \<and> lasted (trailing_run (quiet t0) (fs @ [f])) (fst f)"

text \<open>What the refs hold after the frames \<open>fs\<close> of a recording started at \<open>t0\<close>.\<close>

definition vad_inv :: "int \<Rightarrow> (int \<times> real) list \<Rightarrow> hook \<Rightarrow> bool" where
  "vad_inv t0 fs s \<longleftrightarrow>
     recordingStartRef s = Some t0 \<and> hasSpokenRef s = spoken fs \<and>
     silenceStartRef s =
       (if spoken fs \<and> trailing_run (quiet t0) fs \<noteq> []
        then Some (fst (hd (trailing_run (quiet t0) fs))) else None)"

subsection \<open>Concrete sessions\<close>

text \<open>Both clocks at \<open>t\<close> milliseconds.\<close>

definition tick :: "int \<Rightarrow> clock" where
  "tick t = \<lparr>dateNow = t, perfNow = real_of_int t\<rparr>"

text \<open>The hook after a click on the voice button and the grant of the microphone at \<open>t0\<close>.\<close>

definition listening :: "bool \<Rightarrow> int \<Rightarrow> hook" where
  "listening cont t0 = run (initial cont True) [(tick t0, Click), (tick t0, GetUserMediaResolved)]"

text \<open>
  Scenario B: the recording starts at 1000; frames every 100 ms, above the speech threshold
  for 700 ms, then below the silence threshold for 1100 ms; a recorder chunk arrives in
  between.
\<close>

definition scenario_B :: "(clock \<times> event) list" where
  "scenario_B =
     [(tick 1000, Click), (tick 1000, GetUserMediaResolved)] @
     map (\<lambda>i. (tick (1000 + 100 * int i), AnimationFrame i (5 / 100))) [0 ..< 7] @
     [(tick 1600, DataAvailable 3200)] @
     map (\<lambda>i. (tick (1700 + 100 * int i), AnimationFrame (7 + i) (5 / 1000))) [0 ..< 12]"

text \<open>Scenario B run to the point where the utterance has been sent for transcription.\<close>

definition turn_started :: "bool \<Rightarrow> hook" where
  "turn_started cont = run (initial cont True) scenario_B"

text \<open>The same, after the transcription \<open>" hi "\<close> has arrived and the reply is awaited.\<close>

definition awaiting_reply :: "bool \<Rightarrow> hook" where
  "awaiting_reply cont =
     step (tick 3000) (TranscribeDone 0 (Some (str '' hi ''))) (turn_started cont)"

text \<open>
  After the reply \<open>"Hello"\<close> has arrived, with its \<open>end_conversation\<close> flag \<open>ec\<close>, and after
  its synthesized audio has arrived and started to play.
\<close>

definition awaiting_speech :: "bool \<Rightarrow> bool \<Rightarrow> hook" where
  "awaiting_speech cont ec =
     step (tick 3500) (ChatDone 0 (str ''Hello'') ec) (awaiting_reply cont)"

definition speaking :: "bool \<Rightarrow> bool \<Rightarrow> hook" where
  "speaking cont ec = step (tick 4000) (TtsDone 0) (awaiting_speech cont ec)"

text \<open>The events of that turn, from the click to the arrival of the synthesized audio.\<close>

definition full_turn :: "(clock \<times> event) list" where
  "full_turn =
     scenario_B @
     [(tick 3000, TranscribeDone 0 (Some (str '' hi ''))),
      (tick 3500, ChatDone 0 (str ''Hello'') False),
      (tick 4000, TtsDone 0)]"

subsection \<open>Failure of a stage\<close>

text \<open>
  \<open>stage_failure c msg cl e ec\<close>: the event \<open>e\<close> is the rejection, with message \<open>msg\<close>, of the
  call that \<open>cl\<close> awaits (transcription, reply or synthesis), and \<open>ec\<close> is the value of
  \<open>endConversation\<close> at that point.
\<close>

definition stage_failure :: "nat \<Rightarrow> jsstring \<Rightarrow> call \<Rightarrow> event \<Rightarrow> bool \<Rightarrow> bool" where
  "stage_failure c msg cl e ec \<longleftrightarrow>
     (case phase cl of
        AwaitTranscribe t0 \<Rightarrow> e = TranscribeFailed c msg \<and> \<not> ec
      | AwaitChat stt t0 \<Rightarrow> e = ChatFailed c msg \<and> \<not> ec
      | AwaitTTS stt llm text ec' t0 \<Rightarrow> e = TtsFailed c msg \<and> ec = ec'
      | AwaitPlay ec' u \<Rightarrow> False)"

subsection \<open>Latencies\<close>

text \<open>
  A message's latencies are not negative. A suspended call is in order at the time \<open>now\<close>
  of \<open>performance.now()\<close> when the latencies it has measured are not negative and the
  start time it recorded is not in the future. \<open>mono_clock\<close>: the times of
  \<open>performance.now()\<close> along a sequence of events never decrease.
\<close>

definition nonneg_latency :: "ChatMessage \<Rightarrow> bool" where
  "nonneg_latency m =
     (case latency m of
        None \<Rightarrow> True
      | Some l \<Rightarrow> 0 \<le> stt_ms l \<and> 0 \<le> llm_ms l \<and> 0 \<le> tts_ms l)"

fun phase_ok :: "real \<Rightarrow> phase \<Rightarrow> bool" where
  "phase_ok now (AwaitTranscribe t0) = (t0 \<le> now)"
| "phase_ok now (AwaitChat stt t0) = (0 \<le> stt \<and> t0 \<le> now)"
| "phase_ok now (AwaitTTS stt llm reply ec t0) = (0 \<le> stt \<and> 0 \<le> llm \<and> t0 \<le> now)"
| "phase_ok now (AwaitPlay ec u) = True"

definition latency_inv :: "real \<Rightarrow> hook \<Rightarrow> bool" where
  "latency_inv now s \<longleftrightarrow>
     list_all nonneg_latency (messages s) \<and>
     (\<forall>c cl. calls s c = Some cl \<longrightarrow> phase_ok now (phase cl))"

fun mono_clock :: "real \<Rightarrow> (clock \<times> event) list \<Rightarrow> bool" where
  "mono_clock now [] = True"
| "mono_clock now (ke # es) = (now \<le> perfNow (fst ke) \<and> mono_clock (perfNow (fst ke)) es)"

section \<open>Live view of a call (\<open>VoiceCallDetail\<close>, \<open>useVoiceCallLive\<close>)\<close>

text \<open>
  A finalized turn of a call, and the partial turn shown while the pipeline runs; the
  partial turn's fields are optional. Latencies are whole numbers of milliseconds.
\<close>

record VoiceCallTurn = TurnLatency +
  user_text :: jsstring
  assistant_text :: jsstring

record CurrentTurnPartial =
  cur_user_text :: "jsstring option"
  cur_assistant_text :: "jsstring option"
  cur_stt_ms :: "int option"
  cur_llm_ms :: "int option"
  cur_tts_ms :: "int option"

text \<open>
  A live event: its name (the field \<open>event\<close>) and its payload, \<open>None\<close> when the message has
  no payload object. Of the payload, the fields the handler reads (\<open>None\<close>: absent or
  \<open>null\<close>).
\<close>

record live_payload =
  p_user_text :: "jsstring option"
  p_assistant_text :: "jsstring option"
  p_stt_ms :: "int option"
  p_llm_ms :: "int option"
  p_tts_ms :: "int option"

datatype live_name = stt_done | llm_done | tts_start | tts_done | other_name

record LiveEvent =
  event_name :: live_name
  payload :: "live_payload option"

text \<open>The call as \<open>getVoiceCall\<close> returns it.\<close>

record VoiceCallDetail =
  call_sid :: jsstring
  stream_sid :: jsstring
  start_time :: "real option"
  end_time :: "real option"
  detail_turns :: "VoiceCallTurn list"

text \<open>The component's state (\<open>call\<close>, \<open>loading\<close>, \<open>error\<close>, \<open>turns\<close>, \<open>currentTurn\<close>).\<close>

record callview =
  call_data :: "VoiceCallDetail option"
  loading :: bool
  loadError :: "jsstring option"
  turns :: "VoiceCallTurn list"
  currentTurn :: "CurrentTurnPartial option"

text \<open>The state when the effect has started the load.\<close>

definition view_initial :: callview where
  "view_initial =
     \<lparr>call_data = None, loading = True, loadError = None, turns = [], currentTurn = None\<rparr>"

text \<open>\<open>x ?? d\<close>.\<close>

fun nullish :: "'a option \<Rightarrow> 'a \<Rightarrow> 'a" where
  "nullish None d = d"
| "nullish (Some x) d = x"

text \<open>\<open>{...prev}\<close>: the fields of \<open>prev\<close>, none when \<open>prev\<close> is \<open>null\<close>.\<close>

definition spread :: "CurrentTurnPartial option \<Rightarrow> CurrentTurnPartial" where
  "spread prev =
     nullish prev \<lparr>cur_user_text = None, cur_assistant_text = None, cur_stt_ms = None,
                   cur_llm_ms = None, cur_tts_ms = None\<rparr>"

text \<open>The turn that \<open>tts_done\<close> builds from the partial turn and its payload.\<close>

definition full_turn_of :: "CurrentTurnPartial \<Rightarrow> live_payload \<Rightarrow> VoiceCallTurn" where
  "full_turn_of prev pl =
     \<lparr>stt_ms = nullish (cur_stt_ms prev) 0, llm_ms = nullish (cur_llm_ms prev) 0,
      tts_ms = nullish (p_tts_ms pl) 0, user_text = nullish (cur_user_text prev) [],
      assistant_text = nullish (cur_assistant_text prev) []\<rparr>"

text \<open>
  \<open>handleLiveMessage\<close>; \<open>None\<close> when it throws: reading a field of a payload that is not
  there is a \<open>TypeError\<close>.
\<close>

definition handleLiveMessage :: "LiveEvent \<Rightarrow> callview \<Rightarrow> callview option" where
  "handleLiveMessage ev v =
     (case event_name ev of
        stt_done \<Rightarrow>
          (case payload ev of
             None \<Rightarrow> None
           | Some pl \<Rightarrow>
               Some (v\<lparr>currentTurn := Some ((spread (currentTurn v))
                  \<lparr>cur_user_text := Some (nullish (p_user_text pl) []),
                   cur_stt_ms := Some (nullish (p_stt_ms pl) 0)\<rparr>)\<rparr>))
      | llm_done \<Rightarrow>
          (case payload ev of
             None \<Rightarrow> None
           | Some pl \<Rightarrow>
               Some (v\<lparr>currentTurn := Some ((spread (currentTurn v))
                  \<lparr>cur_assistant_text := Some (nullish (p_assistant_text pl) []),
                   cur_llm_ms := Some (nullish (p_llm_ms pl) 0)\<rparr>)\<rparr>))
      | tts_start \<Rightarrow> Some (v\<lparr>currentTurn := Some (spread (currentTurn v))\<rparr>)
      | tts_done \<Rightarrow>
          (case payload ev of
             None \<Rightarrow> None
           | Some pl \<Rightarrow>
               Some (case currentTurn v of
                       None \<Rightarrow> v
                     | Some prev \<Rightarrow>
                         v\<lparr>turns := turns v @ [full_turn_of prev pl], currentTurn := None\<rparr>))
      | other_name \<Rightarrow> Some v)"

text \<open>
  \<open>ws.onmessage\<close> of \<open>useVoiceCallLive\<close>: \<open>JSON.parse\<close> and the handler run inside a \<open>try\<close>
  whose \<open>catch\<close> ignores the exception. \<open>None\<close>: the data does not parse to an object.
\<close>

definition onLiveMessage :: "LiveEvent option \<Rightarrow> callview \<Rightarrow> callview" where
  "onLiveMessage m v =
     (case m of
        None \<Rightarrow> v
      | Some ev \<Rightarrow> (case handleLiveMessage ev v of None \<Rightarrow> v | Some v' \<Rightarrow> v'))"

text \<open>The load of the call settles: \<open>setCall(data); setTurns(data.turns)\<close>, or \<open>setError\<close>.\<close>

definition loadResolved :: "VoiceCallDetail \<Rightarrow> callview \<Rightarrow> callview" where
  "loadResolved d v = v\<lparr>call_data := Some d, turns := detail_turns d, loading := False\<rparr>"

definition loadRejected :: "jsstring \<Rightarrow> callview \<Rightarrow> callview" where
  "loadRejected msg v = v\<lparr>loadError := Some msg, loading := False\<rparr>"

datatype view_event =
    LiveMessage "LiveEvent option"
  | LoadResolved VoiceCallDetail
  | LoadRejected jsstring

fun view_step :: "view_event \<Rightarrow> callview \<Rightarrow> callview" where
  "view_step (LiveMessage m) v = onLiveMessage m v"
| "view_step (LoadResolved d) v = loadResolved d v"
| "view_step (LoadRejected msg) v = loadRejected msg v"

fun view_run :: "callview \<Rightarrow> view_event list \<Rightarrow> callview" where
  "view_run v [] = v"
| "view_run v (e # es) = view_run (view_step e v) es"

text \<open>
  What a live message finalizes: the turn of a \<open>tts_done\<close> with a payload, when a partial
  turn is pending; nothing otherwise.
\<close>

definition finalized :: "LiveEvent option \<Rightarrow> callview \<Rightarrow> VoiceCallTurn list" where
  "finalized m v =
     (case (m, currentTurn v) of
        (Some ev, Some prev) \<Rightarrow>
          (case (event_name ev, payload ev) of
             (tts_done, Some pl) \<Rightarrow> [full_turn_of prev pl]
           | _ \<Rightarrow> [])
      | _ \<Rightarrow> [])"

text \<open>
  Latencies that are not negative: of a turn, of a partial turn, and of what an event
  brings (the latencies of a payload, where present; the turns of a loaded call).
\<close>

definition turn_nonneg :: "VoiceCallTurn \<Rightarrow> bool" where
  "turn_nonneg t \<longleftrightarrow> 0 \<le> stt_ms t \<and> 0 \<le> llm_ms t \<and> 0 \<le> tts_ms t"

definition partial_nonneg :: "CurrentTurnPartial option \<Rightarrow> bool" where
  "partial_nonneg p =
     (case p of
        None \<Rightarrow> True
      | Some q \<Rightarrow> 0 \<le> nullish (cur_stt_ms q) 0 \<and> 0 \<le> nullish (cur_llm_ms q) 0)"

definition payload_nonneg :: "live_payload \<Rightarrow> bool" where
  "payload_nonneg pl \<longleftrightarrow>
     0 \<le> nullish (p_stt_ms pl) 0 \<and> 0 \<le> nullish (p_llm_ms pl) 0 \<and> 0 \<le> nullish (p_tts_ms pl) 0"

fun event_nonneg :: "view_event \<Rightarrow> bool" where
  "event_nonneg (LiveMessage (Some ev)) =
     (case payload ev of None \<Rightarrow> True | Some pl \<Rightarrow> payload_nonneg pl)"
| "event_nonneg (LiveMessage None) = True"
| "event_nonneg (LoadResolved d) = list_all turn_nonneg (detail_turns d)"
| "event_nonneg (LoadRejected msg) = True"

text \<open>A concrete call: one turn streams in; its recognition latency is negative in the second.\<close>

definition live_turn :: "int \<Rightarrow> view_event list" where
  "live_turn stt =
     [LiveMessage (Some \<lparr>event_name = stt_done, payload = Some
        \<lparr>p_user_text = Some (str ''hi''), p_assistant_text = None, p_stt_ms = Some stt,
         p_llm_ms = None, p_tts_ms = None\<rparr>\<rparr>),
      LiveMessage (Some \<lparr>event_name = llm_done, payload = Some
        \<lparr>p_user_text = None, p_assistant_text = Some (str ''Hello''), p_stt_ms = None,
         p_llm_ms = Some 500, p_tts_ms = None\<rparr>\<rparr>),
      LiveMessage (Some \<lparr>event_name = tts_start, payload = None\<rparr>),
      LiveMessage (Some \<lparr>event_name = tts_done, payload = Some
        \<lparr>p_user_text = None, p_assistant_text = None, p_stt_ms = None,
         p_llm_ms = None, p_tts_ms = Some 400\<rparr>\<rparr>)]"

definition empty_call :: VoiceCallDetail where
  "empty_call =
     \<lparr>call_sid = str ''CA123'', stream_sid = str ''MZ1'', start_time = Some 1000,
      end_time = None, detail_turns = []\<rparr>"

subsection \<open>Concrete sessions: the end of a conversation, an empty transcript\<close>

text \<open>The concrete turn after \<open>audio.play()\<close> has resolved.\<close>

definition playing_reply :: "bool \<Rightarrow> bool \<Rightarrow> hook" where
  "playing_reply cont ec = step (tick 4100) (PlayResolved 0) (speaking cont ec)"

text \<open>
  The reply that is playing ends, and the voice-session end request that the ended event
  sends is rejected, or fulfilled.
\<close>

definition end_rejected :: "(clock \<times> event) list" where
  "end_rejected = [(tick 5000, AudioEnded 0), (tick 5100, EndVoiceSessionRejected)]"

definition end_resolved :: "(clock \<times> event) list" where
  "end_resolved = [(tick 5000, AudioEnded 0), (tick 5100, EndVoiceSessionResolved)]"

text \<open>
  Continuous mode, after the first utterance was sent for transcription: its transcript is
  blank (\<open>restarted\<close>). Then the user speaks again, a chunk arrives, and the user falls
  silent for a second, with two frame loops running (\<open>second_sent\<close>); this utterance is
  transcribed, answered and synthesized, so that its reply starts playing
  (\<open>second_playing\<close>).
\<close>

definition restarted :: hook where
  "restarted = step (tick 3000) (TranscribeDone 0 (Some (str ''  ''))) (turn_started True)"

definition second_utterance :: "(clock \<times> event) list" where
  "second_utterance =
     [(tick 3100, AnimationFrame 18 (5 / 100)), (tick 3100, AnimationFrame 19 (5 / 100)),
      (tick 3200, DataAvailable 3200),
      (tick 3700, AnimationFrame 20 (5 / 1000)), (tick 3700, AnimationFrame 21 (5 / 1000)),
      (tick 4700, AnimationFrame 22 (5 / 1000))]"

definition second_sent :: hook where
  "second_sent = run restarted second_utterance"

definition second_reply :: "(clock \<times> event) list" where
  "second_reply =
     [(tick 5000, TranscribeDone 1 (Some (str '' hi ''))),
      (tick 5500, ChatDone 1 (str ''Hello'') False),
      (tick 6000, TtsDone 1)]"

definition second_playing :: hook where
  "second_playing = run second_sent second_reply"

text \<open>
  Two clicks on the voice button before the microphone is granted: \<open>startListening\<close> runs
  twice, and both requests are granted.
\<close>

definition double_grant :: "(clock \<times> event) list" where
  "double_grant =
     [(tick 1000, Click), (tick 1000, Click),
      (tick 1050, GetUserMediaResolved), (tick 1050, GetUserMediaResolved)]"

section \<open>Properties of the streaming transcription session\<close>
lemma finalParts_resolveEnd [simp]: "finalParts (resolveEnd v s) = finalParts s"
  by (simp add: resolveEnd_def)

lemma finalParts_handle:
  "finalParts (ws_handle e s) = finalParts s @ pushed [e]"
  by (cases e rule: settles.cases)
     (simp_all add: onmessage_def onerror_def onclose_def Let_def)

lemma pushed_Cons: "pushed (e # es) = pushed [e] @ pushed es"
  by (cases e rule: settles.cases) simp_all

lemma finalParts_run: "finalParts (ws_run s es) = finalParts s @ pushed es"
proof (induction es arbitrary: s)
  case Nil
  show ?case by simp
next
  case (Cons e es)
  have "finalParts (ws_run s (e # es)) = (finalParts s @ pushed [e]) @ pushed es"
    using Cons.IH [of "ws_handle e s"] by (simp add: finalParts_handle)
  then show ?case using pushed_Cons [of e es] by simp
qed

lemma handle_resolved:
  "resolved s \<Longrightarrow> resolved (ws_handle e s) \<and> endPromise (ws_handle e s) = endPromise s"
  by (cases e rule: settles.cases)
     (simp_all add: onmessage_def onerror_def onclose_def resolveEnd_def Let_def)

lemma run_resolved:
  "resolved s \<Longrightarrow> resolved (ws_run s es) \<and> endPromise (ws_run s es) = endPromise s"
  by (induction es arbitrary: s) (simp_all add: handle_resolved)

lemma handle_pending:
  "\<not> resolved s \<Longrightarrow> \<not> settles e \<Longrightarrow>
   \<not> resolved (ws_handle e s) \<and> endPromise (ws_handle e s) = endPromise s"
  by (cases e rule: settles.cases)
     (simp_all add: onmessage_def Let_def)

lemma run_pending:
  "\<not> resolved s \<Longrightarrow> \<forall>e \<in> set es. \<not> settles e \<Longrightarrow>
   \<not> resolved (ws_run s es) \<and> endPromise (ws_run s es) = endPromise s"
  by (induction es arbitrary: s) (simp_all add: handle_pending)

lemma ws_run_append: "ws_run s (es @ fs) = ws_run (ws_run s es) fs"
  by (induction es arbitrary: s) simp_all

lemma str_neq: "str ''done'' \<noteq> str ''final''" "str ''done'' \<noteq> str ''error''"
  by (simp_all add: str_def)

text \<open>
  C5 (as amended). When \<open>done\<close> arrives while \<open>endPromise\<close> is still pending (no earlier
  \<open>done\<close> or \<open>error\<close> message, transport error or close), \<open>end()\<close> resolves with the
  non-empty texts of the \<open>final\<close> messages received before it, joined with single spaces
  and trimmed; no later event changes the value.
\<close>

theorem done_resolves_with_pushed_finals:
  assumes pending: "\<forall>e \<in> set es. \<not> settles e"
    and isdone: "mtype m = Some (str ''done'')"
  shows "endPromise (ws_run newSession (es @ OnMessage (Parsed m) # es'))
           = Some (trim (join (str '' '') (pushed es)))"
proof -
  let ?s = "ws_run newSession es"
  have p: "\<not> resolved ?s"
    using run_pending [of newSession es] pending by (simp add: newSession_def)
  have f: "finalParts ?s = pushed es"
    by (simp add: finalParts_run newSession_def)
  let ?t = "ws_handle (OnMessage (Parsed m)) ?s"
  have r: "resolved ?t \<and> endPromise ?t = Some (trim (join (str '' '') (pushed es)))"
    using p f isdone by (simp add: onmessage_def resolveEnd_def transcript_def str_neq)
  have "endPromise (ws_run ?t es') = endPromise ?t"
    using r run_resolved by blast
  then show ?thesis using r by (simp add: ws_run_append)
qed

theorem done_witness:
  "\<not> settles (final_msg (str ''hello'')) \<and> \<not> settles (final_msg (str ''world'')) \<and>
   endPromise (ws_run newSession [final_msg (str ''hello''), final_msg (str ''world''), done_msg, OnClose])
     = Some (str ''hello world'')"
  using done_resolves_with_pushed_finals
    [of "[final_msg (str ''hello''), final_msg (str ''world'')]"
        "\<lparr>mtype = Some (str ''done''), mtext = None\<rparr>" "[OnClose]"]
  by (simp add: final_msg_def done_msg_def str_def trim_def is_ws_def)

text \<open>
  C5 as stated fails: an \<open>error\<close> message before \<open>done\<close> resolves the session with the
  empty string, and a \<open>final\<close> message whose text is empty is not part of the join.
\<close>

theorem done_counterexample:
  "endPromise (ws_run newSession [final_msg (str ''hi''), error_msg, done_msg])
     \<noteq> Some (spec_transcript [final_msg (str ''hi''), error_msg, done_msg]) \<and>
   endPromise (ws_run newSession [final_msg (str ''a''), final_msg [], final_msg (str ''b''), done_msg])
     \<noteq> Some (spec_transcript [final_msg (str ''a''), final_msg [], final_msg (str ''b''), done_msg])"
  by (simp add: newSession_def final_msg_def error_msg_def done_msg_def onmessage_def
      resolveEnd_def transcript_def spec_transcript_def str_def trim_def is_ws_def)

text \<open>
  C6 (as amended). When the connection closes while \<open>endPromise\<close> is still pending, the
  session resolves with the transcript of the fragments pushed so far; a transport error
  event, or an \<open>error\<close> message, resolves it with the empty string instead.
\<close>

theorem close_keeps_partial_error_discards:
  assumes pending: "\<forall>e \<in> set es. \<not> settles e"
  shows "endPromise (ws_run newSession (es @ OnClose # es'))
           = Some (trim (join (str '' '') (pushed es))) \<and>
         endPromise (ws_run newSession (es @ OnError # es')) = Some [] \<and>
         endPromise (ws_run newSession (es @ error_msg # es')) = Some []"
proof -
  let ?s = "ws_run newSession es"
  have p: "\<not> resolved ?s"
    using run_pending [of newSession es] pending by (simp add: newSession_def)
  have f: "finalParts ?s = pushed es"
    by (simp add: finalParts_run newSession_def)
  have c: "resolved (ws_handle OnClose ?s) \<and>
           endPromise (ws_handle OnClose ?s) = Some (trim (join (str '' '') (pushed es)))"
    using p f by (simp add: onclose_def resolveEnd_def transcript_def)
  have e: "resolved (ws_handle OnError ?s) \<and> endPromise (ws_handle OnError ?s) = Some []"
    using p by (simp add: onerror_def resolveEnd_def)
  have m: "resolved (ws_handle error_msg ?s) \<and> endPromise (ws_handle error_msg ?s) = Some []"
    using p by (simp add: error_msg_def onmessage_def resolveEnd_def str_def)
  show ?thesis
    using c e m run_resolved [of "ws_handle OnClose ?s" es']
      run_resolved [of "ws_handle OnError ?s" es'] run_resolved [of "ws_handle error_msg ?s" es']
    by (simp add: ws_run_append)
qed

theorem close_witness:
  "\<not> settles (final_msg (str ''hello'')) \<and>
   endPromise (ws_run newSession [final_msg (str ''hello''), OnClose]) = Some (str ''hello'') \<and>
   endPromise (ws_run newSession [final_msg (str ''hello''), OnError, OnClose]) = Some []"
  using close_keeps_partial_error_discards [of "[final_msg (str ''hello'')]" "[]"]
    close_keeps_partial_error_discards [of "[final_msg (str ''hello'')]" "[OnClose]"]
  by (simp add: final_msg_def str_def trim_def is_ws_def)

text \<open>
  C6 as stated fails for a connection that errors: \<open>onerror\<close> runs before \<open>onclose\<close> and
  resolves with the empty string, so the fragment already received is dropped.
\<close>

theorem close_counterexample:
  "endPromise (ws_run newSession [final_msg (str ''hello''), OnError, OnClose])
     \<noteq> Some (spec_transcript [final_msg (str ''hello''), OnError, OnClose])"
  by (simp add: newSession_def final_msg_def onmessage_def onerror_def onclose_def
      resolveEnd_def transcript_def spec_transcript_def str_def trim_def is_ws_def)

section \<open>Properties of the voice-activity detector\<close>

lemma trailing_run_snoc:
  "trailing_run P (fs @ [f]) = (if P f then trailing_run P fs @ [f] else [])"
  by (simp add: trailing_run_def)

lemma spoken_snoc: "spoken (fs @ [f]) \<longleftrightarrow> spoken fs \<or> snd f > SPEECH_RMS_THRESHOLD"
  by (auto simp: spoken_def list_ex_iff)

lemma vadLoop_append:
  "vadLoop s (fs @ gs) =
     (case vadLoop s fs of
        (StopAndSend, s') \<Rightarrow> (StopAndSend, s')
      | (Reschedule, s') \<Rightarrow> vadLoop s' gs)"
  by (induction fs arbitrary: s) (auto split: prod.splits vad_action.splits)

lemma vad_step_inv:
  assumes "vad_inv t0 fs s" "t0 \<noteq> 0" "vad t r s = (Reschedule, s')"
  shows "vad_inv t0 (fs @ [(t, r)]) s'"
  using assms
  by (auto simp: vad_inv_def vad_def Let_def recordingDuration_def trailing_run_snoc spoken_snoc
      quiet_def silent_def SPEECH_RMS_THRESHOLD_def SILENCE_RMS_THRESHOLD_def
      split: if_splits option.splits)

lemma vad_fires_iff:
  assumes "vad_inv t0 fs s" "t0 \<noteq> 0"
  shows "fst (vad t r s) = StopAndSend \<longleftrightarrow> code_eou t0 fs (t, r)"
  using assms
  by (auto simp: vad_inv_def vad_def Let_def recordingDuration_def trailing_run_snoc spoken_snoc
      code_eou_def lasted_def quiet_def silent_def SILENCE_MS_def
      SPEECH_RMS_THRESHOLD_def SILENCE_RMS_THRESHOLD_def
      split: if_splits option.splits)

lemma vadLoop_inv:
  assumes "recordingStartRef s = Some t0" "t0 \<noteq> 0" "\<not> hasSpokenRef s" "silenceStartRef s = None"
  shows "fst (vadLoop s fs) = Reschedule \<Longrightarrow> vad_inv t0 fs (snd (vadLoop s fs))"
proof (induction fs rule: rev_induct)
  case Nil
  show ?case using assms by (simp add: vad_inv_def spoken_def trailing_run_def)
next
  case (snoc f fs)
  obtain a s1 where l: "vadLoop s fs = (a, s1)" by (cases "vadLoop s fs")
  obtain b s2 where v: "vad (fst f) (snd f) s1 = (b, s2)" by (cases "vad (fst f) (snd f) s1")
  from snoc.prems l have a: "a = Reschedule"
    by (auto simp: vadLoop_append split: vad_action.splits)
  with snoc.prems l v have b: "b = Reschedule"
    by (auto simp: vadLoop_append split: vad_action.splits prod.splits)
  have "vad_inv t0 fs s1" using snoc.IH l a by simp
  then have "vad_inv t0 (fs @ [(fst f, snd f)]) s2"
    using vad_step_inv assms(2) v b by blast
  then show ?case using l a v b by (simp add: vadLoop_append)
qed

lemma vad_reset:
  "r \<ge> SILENCE_RMS_THRESHOLD \<Longrightarrow> silenceStartRef (snd (vad t r s)) = None"
  by (simp add: vad_def Let_def)

lemma upt7: "[0 ..< 7] = [0,1,2,3,4,5,6]"
  by code_simp

lemma upt12: "[0 ..< 12] = [0,1,2,3,4,5,6,7,8,9,10,11]"
  by code_simp

lemmas hook_defs =
  initial_def toggleVoice_def startListening_def micUnavailable_def startListeningResumed_def stopListening_def
  requestAnimationFrame_def cancelAnimationFrame_def cancelAnimation_def pause_def addMessage_def
  send_def recordingDuration_def restartRecording_def doRestart_def finallyBlock_def failed_def
  stopRecordingAndSend_def vad_def bargeIn_def checkVolume_def transcribeDone_def chatDone_def
  ttsDone_def playResolved_def onended_def endVoiceSessionThen_def
  SILENCE_RMS_THRESHOLD_def SPEECH_RMS_THRESHOLD_def BARGE_IN_ENABLED_def BARGE_IN_RMS_THRESHOLD_def
  SILENCE_MS_def MIN_RECORDING_MS_def tick_def

lemma listening_vad:
  "recordingStartRef (listening c t0) = Some t0 \<and> \<not> hasSpokenRef (listening c t0) \<and>
   silenceStartRef (listening c t0) = None"
  by (simp add: listening_def hook_defs)

lemma scenario_B_requests: "requests (run (initial True True) scenario_B) = [TranscribeReq]"
  by (simp add: scenario_B_def upt7 upt12 hook_defs Let_def)

text \<open>
  C1 (as amended). While the loop of one recording (started at \<open>t0\<close>) is still running after
  the frames \<open>fs\<close>, \<open>checkVolume\<close> signals the end of the utterance at the next frame if and
  only if an earlier frame exceeded the speech threshold and the trailing run of frames
  that are below the silence threshold and observed at or after the minimum recording
  duration has lasted the required silence duration. A frame at or above the silence
  threshold resets the silence timer. Scenario B sends exactly one utterance.
\<close>

theorem vad_end_of_utterance:
  assumes "recordingStartRef s = Some t0" and "t0 \<noteq> 0"
    and "\<not> hasSpokenRef s" and "silenceStartRef s = None"
    and "fst (vadLoop s fs) = Reschedule"
  shows "(fst (vad t r (snd (vadLoop s fs))) = StopAndSend \<longleftrightarrow> code_eou t0 fs (t, r)) \<and>
         (\<forall>t' r' s'. r' \<ge> SILENCE_RMS_THRESHOLD \<longrightarrow> silenceStartRef (snd (vad t' r' s')) = None) \<and>
         requests (run (initial True True) scenario_B) = [TranscribeReq]"
proof -
  have "vad_inv t0 fs (snd (vadLoop s fs))"
    using vadLoop_inv assms by blast
  then have "fst (vad t r (snd (vadLoop s fs))) = StopAndSend \<longleftrightarrow> code_eou t0 fs (t, r)"
    using vad_fires_iff assms(2) by blast
  then show ?thesis
    using vad_reset scenario_B_requests by blast
qed

theorem vad_end_of_utterance_witness:
  "fst (vad 2700 (5 / 1000)
      (snd (vadLoop (listening True 1000) [(1100, 5 / 100), (1700, 5 / 1000)]))) = StopAndSend \<and>
   code_eou 1000 [(1100, 5 / 100), (1700, 5 / 1000)] (2700, 5 / 1000) \<and>
   fst (vad 2600 (5 / 1000)
      (snd (vadLoop (listening True 1000) [(1100, 5 / 100), (1700, 5 / 1000)]))) = Reschedule \<and>
   \<not> code_eou 1000 [(1100, 5 / 100), (1700, 5 / 1000)] (2600, 5 / 1000)"
proof -
  let ?s = "listening True 1000"
  let ?fs = "[(1100, 5 / 100), (1700, 5 / 1000)] :: (int \<times> real) list"
  have l: "fst (vadLoop ?s ?fs) = Reschedule"
    by (simp add: listening_def hook_defs Let_def)
  have a: "code_eou 1000 ?fs (2700, 5 / 1000)"
    by (simp add: code_eou_def spoken_def lasted_def trailing_run_def quiet_def silent_def
        hook_defs)
  have b: "\<not> code_eou 1000 ?fs (2600, 5 / 1000)"
    by (simp add: code_eou_def spoken_def lasted_def trailing_run_def quiet_def silent_def
        hook_defs)
  have n: "(1000::int) \<noteq> 0" by simp
  have v: "recordingStartRef ?s = Some 1000" "\<not> hasSpokenRef ?s" "silenceStartRef ?s = None"
    using listening_vad [of True 1000] by simp_all
  have w1: "fst (vad 2700 (5 / 1000) (snd (vadLoop ?s ?fs))) = StopAndSend"
    using vad_end_of_utterance [OF v(1) n v(2) v(3) l, of 2700 "5 / 1000"] a by blast
  have w2: "fst (vad 2600 (5 / 1000) (snd (vadLoop ?s ?fs))) \<noteq> StopAndSend"
    using vad_end_of_utterance [OF v(1) n v(2) v(3) l, of 2600 "5 / 1000"] b by blast
  then have "fst (vad 2600 (5 / 1000) (snd (vadLoop ?s ?fs))) = Reschedule"
    by (cases "fst (vad 2600 (5 / 1000) (snd (vadLoop ?s ?fs)))") simp_all
  then show ?thesis using w1 a b by blast
qed

text \<open>
  C1 as stated fails: the silence timer starts only once the recording has reached the
  minimum duration. With speech at 100 ms and silence from 200 ms on, at 1200 ms the
  silent run has lasted 1000 ms and the recording is past 600 ms, yet the timer was
  started at 600 ms and no end of utterance is signalled.
\<close>

theorem vad_end_of_utterance_counterexample:
  "fst (vadLoop (listening True 1000)
      [(1100, 3 / 100), (1200, 0), (1400, 0), (1600, 0), (1800, 0), (2000, 0)]) = Reschedule \<and>
   fst (vad 2200 0 (snd (vadLoop (listening True 1000)
      [(1100, 3 / 100), (1200, 0), (1400, 0), (1600, 0), (1800, 0), (2000, 0)])))
     \<noteq> StopAndSend \<and>
   spec_eou 1000 [(1100, 3 / 100), (1200, 0), (1400, 0), (1600, 0), (1800, 0), (2000, 0)]
     (2200, 0)"
  by (simp add: listening_def hook_defs Let_def spec_eou_def spoken_def lasted_def
      trailing_run_def silent_def)

section \<open>The concrete session, state by state\<close>

lemma run_append: "run s (es @ fs) = run (run s es) fs"
  by (induction es arbitrary: s) simp_all

lemma strip_Hello: "ttsText (str ''Hello'') = str ''Hello''"
  by (simp add: ttsText_def stripMarkdownForTTS_def str_def trim_def is_ws_def replace_def
      m_codeblock_def starts_with_def m_delim_def m_header_def m_link_def m_bullet_def
      m_numbered_def m_newlines_def m_blanks_def is_digit_def Let_def)

lemma trim_hi: "trim (str '' hi '') = str ''hi''"
  by (simp add: str_def trim_def is_ws_def)

lemma str_hi: "str ''hi'' \<noteq> []"
  by (simp add: str_def)

lemma turn_started_state:
  "turn_started c =
     \<lparr>isListening = c, isProcessing = True, error = None, continuousVoiceMode = c,
      micAvailable = True, messages = [], streamRef = c,
      recorderRef = Some Inactive, strayRecorders = 0, lostStreams = 0,
      lostRecorders = 0, chunksRef = [], analyserRef = True, silenceStartRef = None,
      hasSpokenRef = False, animationRef = None, recordingStartRef = Some 1000,
      userRequestedStopRef = False, currentTTSRef = None, rafPending = [], rafNext = 18,
      playing = [], urlNext = 0,
      calls = [0 \<mapsto> \<lparr>continuous = c, phase = AwaitTranscribe 2700\<rparr>], callNext = 1,
      pendingGetUserMedia = 0, pendingEndVoiceSession = 0, requests = [TranscribeReq]\<rparr>"
  by (cases c) (simp_all add: turn_started_def scenario_B_def upt7 upt12 hook_defs Let_def)

lemma awaiting_reply_state:
  "awaiting_reply c =
     \<lparr>isListening = c, isProcessing = True, error = None, continuousVoiceMode = c,
      micAvailable = True,
      messages = [\<lparr>role = User, content = str ''hi'', latency = None\<rparr>], streamRef = c,
      recorderRef = Some Inactive, strayRecorders = 0, lostStreams = 0,
      lostRecorders = 0, chunksRef = [], analyserRef = True, silenceStartRef = None,
      hasSpokenRef = False, animationRef = None, recordingStartRef = Some 1000,
      userRequestedStopRef = False, currentTTSRef = None, rafPending = [], rafNext = 18,
      playing = [], urlNext = 0,
      calls = [0 \<mapsto> \<lparr>continuous = c, phase = AwaitChat 300 3000\<rparr>], callNext = 1,
      pendingGetUserMedia = 0, pendingEndVoiceSession = 0,
      requests = [TranscribeReq,
        ChatReq [\<lparr>role = User, content = str ''hi'', latency = None\<rparr>]]\<rparr>"
  by (simp add: awaiting_reply_def turn_started_state transcribeDone_def Let_def addMessage_def
      send_def js_round_def tick_def trim_hi str_hi)

lemma awaiting_speech_state:
  "awaiting_speech c ec =
     \<lparr>isListening = c, isProcessing = True, error = None, continuousVoiceMode = c,
      micAvailable = True,
      messages = [\<lparr>role = User, content = str ''hi'', latency = None\<rparr>], streamRef = c,
      recorderRef = Some Inactive, strayRecorders = 0, lostStreams = 0,
      lostRecorders = 0, chunksRef = [], analyserRef = True, silenceStartRef = None,
      hasSpokenRef = False, animationRef = None, recordingStartRef = Some 1000,
      userRequestedStopRef = False, currentTTSRef = None, rafPending = [], rafNext = 18,
      playing = [], urlNext = 0,
      calls = [0 \<mapsto> \<lparr>continuous = c, phase = AwaitTTS 300 500 (str ''Hello'') ec 3500\<rparr>],
      callNext = 1, pendingGetUserMedia = 0, pendingEndVoiceSession = 0,
      requests = [TranscribeReq,
        ChatReq [\<lparr>role = User, content = str ''hi'', latency = None\<rparr>],
        TtsReq (str ''Hello'')]\<rparr>"
  by (simp add: awaiting_speech_def awaiting_reply_state chatDone_def Let_def send_def
      js_round_def tick_def strip_Hello)

lemma speaking_state:
  "speaking c ec =
     \<lparr>isListening = c, isProcessing = (ec \<or> \<not> c), error = None, continuousVoiceMode = c,
      micAvailable = True,
      messages = [\<lparr>role = User, content = str ''hi'', latency = None\<rparr>,
        \<lparr>role = Assistant, content = str ''Hello'',
         latency = Some \<lparr>stt_ms = 300, llm_ms = 500, tts_ms = 500\<rparr>\<rparr>], streamRef = c,
      recorderRef = Some Inactive, strayRecorders = 0, lostStreams = 0,
      lostRecorders = 0, chunksRef = [], analyserRef = True, silenceStartRef = None,
      hasSpokenRef = False, animationRef = None, recordingStartRef = Some 1000,
      userRequestedStopRef = False, currentTTSRef = Some 0, rafPending = [], rafNext = 18,
      playing = [\<lparr>url = 0, a_endConversation = ec, a_continuous = c\<rparr>], urlNext = 1,
      calls = (if ec \<or> \<not> c then [0 \<mapsto> \<lparr>continuous = c, phase = AwaitPlay ec 0\<rparr>]
               else Map.empty),
      callNext = 1, pendingGetUserMedia = 0, pendingEndVoiceSession = 0,
      requests = [TranscribeReq,
        ChatReq [\<lparr>role = User, content = str ''hi'', latency = None\<rparr>],
        TtsReq (str ''Hello'')]\<rparr>"
  by (cases ec; cases c)
     (simp_all add: speaking_def awaiting_speech_state ttsDone_def Let_def addMessage_def
      finallyBlock_def js_round_def tick_def)

section \<open>Properties of a turn\<close>

lemma doRestart_frame [simp]:
  "messages (doRestart c k s) = messages s" "requests (doRestart c k s) = requests s"
  "error (doRestart c k s) = error s" "isProcessing (doRestart c k s) = isProcessing s"
  "calls (doRestart c k s) = calls s" "isListening (doRestart c k s) = isListening s"
  "currentTTSRef (doRestart c k s) = currentTTSRef s" "streamRef (doRestart c k s) = streamRef s"
  "userRequestedStopRef (doRestart c k s) = userRequestedStopRef s"
  "playing (doRestart c k s) = playing s"
  "pendingGetUserMedia (doRestart c k s) = pendingGetUserMedia s"
  "pendingEndVoiceSession (doRestart c k s) = pendingEndVoiceSession s"
  by (simp_all add: doRestart_def restartRecording_def requestAnimationFrame_def Let_def)

lemma doRestart_recorder:
  "recorderRef (doRestart c k s) =
     (if c \<and> streamRef s \<and> \<not> userRequestedStopRef s then Some Recording else recorderRef s)"
  by (simp add: doRestart_def restartRecording_def requestAnimationFrame_def Let_def)

lemma doRestart_off: "\<not> c \<Longrightarrow> doRestart c k s = s"
  by (simp add: doRestart_def)

lemma finallyBlock_frame [simp]:
  "messages (finallyBlock c e k s) = messages s" "requests (finallyBlock c e k s) = requests s"
  "error (finallyBlock c e k s) = error s" "\<not> isProcessing (finallyBlock c e k s)"
  "calls (finallyBlock c e k s) = calls s" "isListening (finallyBlock c e k s) = isListening s"
  "currentTTSRef (finallyBlock c e k s) = currentTTSRef s"
  "streamRef (finallyBlock c e k s) = streamRef s"
  "userRequestedStopRef (finallyBlock c e k s) = userRequestedStopRef s"
  "playing (finallyBlock c e k s) = playing s"
  "pendingGetUserMedia (finallyBlock c e k s) = pendingGetUserMedia s"
  "pendingEndVoiceSession (finallyBlock c e k s) = pendingEndVoiceSession s"
  by (simp_all add: finallyBlock_def Let_def)

lemma finallyBlock_recorder:
  "recorderRef (finallyBlock c e k s) =
     (if c \<and> currentTTSRef s = None \<and> \<not> e \<and> streamRef s \<and> \<not> userRequestedStopRef s
      then Some Recording else recorderRef s)"
  by (simp add: finallyBlock_def Let_def doRestart_recorder)

lemma finallyBlock_off: "\<not> c \<Longrightarrow> finallyBlock c e k s = s\<lparr>isProcessing := False\<rparr>"
  by (simp add: finallyBlock_def)

lemma turn_started_eval:
  "calls (turn_started c) 0 = Some \<lparr>continuous = c, phase = AwaitTranscribe 2700\<rparr> \<and>
   streamRef (turn_started c) = c \<and> \<not> userRequestedStopRef (turn_started c) \<and>
   recorderRef (turn_started c) = Some Inactive \<and> isListening (turn_started c) = c \<and>
   messages (turn_started c) = [] \<and> requests (turn_started c) = [TranscribeReq] \<and>
   error (turn_started c) = None \<and> currentTTSRef (turn_started c) = None \<and>
   rafPending (turn_started c) = [] \<and> isProcessing (turn_started c)"
  by (simp add: turn_started_state)

lemma awaiting_reply_eval:
  "calls (awaiting_reply c) 0 = Some \<lparr>continuous = c, phase = AwaitChat 300 3000\<rparr> \<and>
   messages (awaiting_reply c) = [\<lparr>role = User, content = str ''hi'', latency = None\<rparr>] \<and>
   requests (awaiting_reply c) =
     [TranscribeReq, ChatReq [\<lparr>role = User, content = str ''hi'', latency = None\<rparr>]] \<and>
   streamRef (awaiting_reply c) = c \<and> \<not> userRequestedStopRef (awaiting_reply c) \<and>
   recorderRef (awaiting_reply c) = Some Inactive \<and> currentTTSRef (awaiting_reply c) = None \<and>
   error (awaiting_reply c) = None \<and> isListening (awaiting_reply c) = c"
  by (simp add: awaiting_reply_state)

text \<open>
  C10. When the reply arrives, the text sent to speech synthesis is
  \<open>stripMarkdownForTTS\<close> of the reply when that is not empty, and the reply itself
  otherwise; so a non-empty reply never gives an empty synthesis request; and
  \<open>stripMarkdownForTTS\<close> returns a whitespace-only text unchanged.
\<close>

theorem synthesis_text:
  assumes "calls s c = Some cl" and "phase cl = AwaitChat stt t0"
  shows "requests (step k (ChatDone c text e) s) =
           requests s @ [TtsReq (if stripMarkdownForTTS text \<noteq> [] then stripMarkdownForTTS text
                                 else text)] \<and>
         (text \<noteq> [] \<longrightarrow>
            (if stripMarkdownForTTS text \<noteq> [] then stripMarkdownForTTS text else text) \<noteq> []) \<and>
         (trim text = [] \<longrightarrow> stripMarkdownForTTS text = text)"
  using assms by (simp add: chatDone_def send_def ttsText_def stripMarkdownForTTS_def Let_def)

theorem synthesis_text_witness:
  "requests (step (tick 3500) (ChatDone 0 (str ''```a```'') False) (awaiting_reply True)) =
     [TranscribeReq, ChatReq [\<lparr>role = User, content = str ''hi'', latency = None\<rparr>],
      TtsReq (str ''```a```'')] \<and>
   stripMarkdownForTTS (str ''```a```'') = []"
proof -
  have s: "stripMarkdownForTTS (str ''```a```'') = []"
    by (simp add: stripMarkdownForTTS_def str_def trim_def is_ws_def replace_def m_codeblock_def
        starts_with_def m_delim_def m_header_def m_link_def m_bullet_def m_numbered_def
        m_newlines_def m_blanks_def Let_def)
  have c: "calls (awaiting_reply True) 0 = Some \<lparr>continuous = True, phase = AwaitChat 300 3000\<rparr>"
    using awaiting_reply_eval [of True] by simp
  show ?thesis
    using synthesis_text [OF c, of 300 3000 "tick 3500" "str ''```a```''" False]
      awaiting_reply_eval [of True] s
    by simp
qed




lemma failed_effect:
  "error (failed c cont ec msg k s) = Some msg \<and>
   messages (failed c cont ec msg k s) = messages s \<and>
   requests (failed c cont ec msg k s) = requests s \<and>
   \<not> isProcessing (failed c cont ec msg k s) \<and>
   calls (failed c cont ec msg k s) c = None \<and>
   (cont \<and> \<not> ec \<and> currentTTSRef s = None \<and> streamRef s \<and> \<not> userRequestedStopRef s \<longrightarrow>
      recorderRef (failed c cont ec msg k s) = Some Recording) \<and>
   (\<not> cont \<longrightarrow>
      recorderRef (failed c cont ec msg k s) = recorderRef s \<and>
      streamRef (failed c cont ec msg k s) = streamRef s \<and>
      isListening (failed c cont ec msg k s) = isListening s)"
  by (simp add: failed_def finallyBlock_recorder finallyBlock_off)




section \<open>Order and latencies of finalized turns\<close>

lemma phase_ok_mono: "phase_ok now p \<Longrightarrow> now \<le> now' \<Longrightarrow> phase_ok now' p"
  by (cases p) auto

lemma latency_inv_mono: "latency_inv now s \<Longrightarrow> now \<le> now' \<Longrightarrow> latency_inv now' s"
  unfolding latency_inv_def using phase_ok_mono by blast

lemma js_round_nonneg: "0 \<le> x \<Longrightarrow> 0 \<le> js_round x"
  by (simp add: js_round_def)

lemma latency_inv_cong:
  "messages s' = messages s \<Longrightarrow> calls s' = calls s \<Longrightarrow> latency_inv now s' = latency_inv now s"
  by (simp add: latency_inv_def)

lemma cancelAnimation_frame [simp]:
  "messages (cancelAnimation s) = messages s" "calls (cancelAnimation s) = calls s"
  by (simp_all add: cancelAnimation_def cancelAnimationFrame_def split: option.splits)

lemma stop_messages [simp]: "messages (stopRecordingAndSend k s) = messages s"
  by (simp add: stopRecordingAndSend_def Let_def send_def pause_def split: option.splits)

lemma stop_calls:
  "calls (stopRecordingAndSend k s) = calls s \<or>
   calls (stopRecordingAndSend k s) =
     (calls s)(callNext s \<mapsto> \<lparr>continuous = continuousVoiceMode s, phase = AwaitTranscribe (perfNow k)\<rparr>)"
  by (simp add: stopRecordingAndSend_def Let_def send_def pause_def cancelAnimation_def
      cancelAnimationFrame_def doRestart_def restartRecording_def requestAnimationFrame_def
      split: option.splits)

lemma stop_latency_inv:
  assumes "latency_inv (perfNow k) s"
  shows "latency_inv (perfNow k) (stopRecordingAndSend k s)"
  using assms stop_calls [of k s]
  by (auto simp: latency_inv_def split: if_splits)

lemma stop_latency_inv':
  assumes "latency_inv (perfNow k) s" "messages s' = messages s" "calls s' = calls s"
  shows "latency_inv (perfNow k) (stopRecordingAndSend k s')"
  using assms stop_latency_inv [of k s'] by (simp add: latency_inv_def)

lemma vad_frame [simp]:
  "messages (snd (vad t r s)) = messages s" "calls (snd (vad t r s)) = calls s"
  by (simp_all add: vad_def Let_def split: option.splits)

lemma bargeIn_frame [simp]:
  "messages (bargeIn r s) = messages s" "calls (bargeIn r s) = calls s"
  by (simp_all add: bargeIn_def pause_def split: option.splits)

lemma checkVolume_latency_inv:
  assumes "latency_inv (perfNow k) s"
  shows "latency_inv (perfNow k) (checkVolume k r s)"
proof (cases "vad (dateNow k) r (bargeIn r s)")
  case (Pair a s1)
  have f: "messages s1 = messages s" "calls s1 = calls s"
    using vad_frame [of "dateNow k" r "bargeIn r s"] Pair by simp_all
  show ?thesis
  proof (cases a)
    case Reschedule
    then show ?thesis using assms Pair f
      by (simp add: checkVolume_def requestAnimationFrame_def latency_inv_def)
  next
    case StopAndSend
    then show ?thesis using assms Pair stop_latency_inv' [OF assms f]
      by (simp add: checkVolume_def)
  qed
qed

lemma restart_frame [simp]:
  "messages (restartRecording k s) = messages s" "calls (restartRecording k s) = calls s"
  by (simp_all add: restartRecording_def requestAnimationFrame_def Let_def)

lemma doRestart_frame2 [simp]:
  "messages (doRestart c k s) = messages s" "calls (doRestart c k s) = calls s"
  by (simp_all add: doRestart_def)

lemma finally_frame2 [simp]:
  "messages (finallyBlock c e k s) = messages s" "calls (finallyBlock c e k s) = calls s"
  by (simp_all add: finallyBlock_def Let_def)

lemma failed_latency_inv:
  "latency_inv now s \<Longrightarrow> latency_inv now (failed c cont ec msg k s')
     \<or> \<not> (messages s' = messages s \<and> calls s' = calls s)"
  by (auto simp: failed_def latency_inv_def)

lemma inv_phase: "latency_inv now s \<Longrightarrow> calls s c = Some cl \<Longrightarrow> phase_ok now (phase cl)"
  by (simp add: latency_inv_def)

lemma transcribeDone_inv:
  assumes "latency_inv (perfNow k) s" "calls s c = Some cl" "phase cl = AwaitTranscribe t0"
  shows "latency_inv (perfNow k) (transcribeDone c cl t0 t k s)"
proof -
  have "t0 \<le> perfNow k" using inv_phase [OF assms(1,2)] assms(3) by simp
  then have "0 \<le> js_round (perfNow k - t0)" by (simp add: js_round_nonneg)
  then show ?thesis using assms(1)
    by (auto simp: latency_inv_def transcribeDone_def Let_def addMessage_def send_def
        nonneg_latency_def)
qed

lemma chatDone_inv:
  assumes "latency_inv (perfNow k) s" "calls s c = Some cl" "phase cl = AwaitChat stt t0"
  shows "latency_inv (perfNow k) (chatDone c cl stt t0 t ec k s)"
proof -
  have "0 \<le> stt \<and> t0 \<le> perfNow k" using inv_phase [OF assms(1,2)] assms(3) by simp
  then have "0 \<le> stt \<and> 0 \<le> js_round (perfNow k - t0)" by (simp add: js_round_nonneg)
  then show ?thesis using assms(1)
    by (auto simp: latency_inv_def chatDone_def Let_def send_def)
qed

lemma ttsDone_inv:
  assumes "latency_inv (perfNow k) s" "calls s c = Some cl"
    "phase cl = AwaitTTS stt llm reply ec t0"
  shows "latency_inv (perfNow k) (ttsDone c cl stt llm reply ec t0 k s)"
proof -
  have "0 \<le> stt \<and> 0 \<le> llm \<and> t0 \<le> perfNow k"
    using inv_phase [OF assms(1,2)] assms(3) by simp
  then have "0 \<le> stt \<and> 0 \<le> llm \<and> 0 \<le> js_round (perfNow k - t0)"
    by (simp add: js_round_nonneg)
  then show ?thesis using assms(1)
    by (auto simp: latency_inv_def ttsDone_def Let_def addMessage_def nonneg_latency_def)
qed

lemma step_latency_inv:
  assumes "latency_inv now s" and "now \<le> perfNow k"
  shows "latency_inv (perfNow k) (step k e s)"
proof -
  have i: "latency_inv (perfNow k) s"
    using assms latency_inv_mono by blast
  show ?thesis
  proof (cases e)
    case Click
    then show ?thesis
      using i stop_latency_inv' [OF i, of "s\<lparr>userRequestedStopRef := True\<rparr>"]
      by (simp add: toggleVoice_def stopListening_def startListening_def latency_inv_def Let_def)
  next
    case GetUserMediaResolved
    then show ?thesis using i
      by (simp add: startListeningResumed_def requestAnimationFrame_def latency_inv_def)
  next
    case (GetUserMediaRejected m)
    then show ?thesis using i by (simp add: latency_inv_def)
  next
    case (DataAvailable n)
    then show ?thesis using i by (simp add: latency_inv_def)
  next
    case (AnimationFrame n r)
    have "latency_inv (perfNow k) (s\<lparr>rafPending := removeAll n (rafPending s)\<rparr>)"
      using i by (simp add: latency_inv_def)
    then show ?thesis using AnimationFrame i checkVolume_latency_inv by simp
  next
    case (TranscribeDone c t)
    then show ?thesis using i transcribeDone_inv [OF i]
      by (auto split: option.splits phase.splits)
  next
    case (TranscribeFailed c m)
    then show ?thesis using i
      by (auto simp: latency_inv_def failed_def split: option.splits phase.splits)
  next
    case (ChatDone c t ec)
    then show ?thesis using i chatDone_inv [OF i]
      by (auto split: option.splits phase.splits)
  next
    case (ChatFailed c m)
    then show ?thesis using i
      by (auto simp: latency_inv_def failed_def split: option.splits phase.splits)
  next
    case (TtsDone c)
    then show ?thesis using i ttsDone_inv [OF i]
      by (auto split: option.splits phase.splits)
  next
    case (TtsFailed c m)
    then show ?thesis using i
      by (auto simp: latency_inv_def failed_def split: option.splits phase.splits)
  next
    case (PlayResolved c)
    then show ?thesis using i
      by (auto simp: latency_inv_def playResolved_def Let_def split: option.splits phase.splits)
  next
    case (PlayRejected c m)
    then show ?thesis using i
      by (auto simp: latency_inv_def failed_def pause_def split: option.splits phase.splits)
  next
    case (AudioEnded u)
    then show ?thesis using i
      by (auto simp: latency_inv_def onended_def pause_def send_def Let_def
          split: option.splits)
  next
    case EndVoiceSessionResolved
    then show ?thesis
      using i stop_latency_inv' [OF i,
          of "s\<lparr>pendingEndVoiceSession := pendingEndVoiceSession s - 1, userRequestedStopRef := True\<rparr>"]
      by (simp add: endVoiceSessionThen_def)
  next
    case EndVoiceSessionRejected
    then show ?thesis using i by (simp add: latency_inv_def)
  next
    case ClearError
    then show ?thesis using i by (simp add: latency_inv_def)
  qed
qed

lemma stop_messages2 [simp]: "messages (checkVolume k r s) = messages s"
  by (cases "vad (dateNow k) r (bargeIn r s)")
     (auto simp: checkVolume_def requestAnimationFrame_def split: vad_action.splits
        dest: arg_cong [where f = "\<lambda>p. messages (snd p)"])

lemma step_messages: "\<exists>ms. messages (step k e s) = messages s @ ms"
proof (cases e)
  case (TranscribeDone c t)
  then show ?thesis
    by (auto simp: transcribeDone_def Let_def addMessage_def send_def
        split: option.splits phase.splits)
next
  case (TtsDone c)
  then show ?thesis
    by (auto simp: ttsDone_def Let_def addMessage_def split: option.splits phase.splits)
qed (auto simp: toggleVoice_def stopListening_def startListening_def Let_def
      startListeningResumed_def requestAnimationFrame_def failed_def chatDone_def send_def
      playResolved_def pause_def onended_def endVoiceSessionThen_def
      split: option.splits phase.splits)

lemma run_messages: "\<exists>ms. messages (run s es) = messages s @ ms"
proof (induction es arbitrary: s)
  case Nil
  show ?case by simp
next
  case (Cons ke es)
  obtain a where a: "messages (step (fst ke) (snd ke) s) = messages s @ a"
    using step_messages by blast
  obtain b where "messages (run (step (fst ke) (snd ke) s) es)
      = messages (step (fst ke) (snd ke) s) @ b"
    using Cons.IH by blast
  then show ?case using a by simp
qed

lemma run_latency_inv:
  "latency_inv now s \<Longrightarrow> mono_clock now es \<Longrightarrow>
   \<exists>now'. latency_inv now' (run s es)"
proof (induction es arbitrary: s now)
  case Nil
  then show ?case by auto
next
  case (Cons ke es)
  then show ?case using step_latency_inv [of now s "fst ke" "snd ke"] by auto
qed

lemma initial_latency_inv: "latency_inv now (initial c m)"
  by (simp add: latency_inv_def initial_def)

lemma full_turn_run: "run (initial c True) full_turn = speaking c False"
  by (simp only: full_turn_def run_append run.simps fst_conv snd_conv turn_started_def
      awaiting_reply_def awaiting_speech_def speaking_def)

lemma full_turn_mono: "mono_clock 0 full_turn"
  by (simp add: full_turn_def scenario_B_def upt7 upt12 tick_def)

subsection \<open>The live view\<close>

lemmas view_defs =
  onLiveMessage_def handleLiveMessage_def loadResolved_def loadRejected_def finalized_def
  full_turn_of_def spread_def view_initial_def

lemma live_turns: "turns (onLiveMessage m v) = turns v @ finalized m v"
  by (simp add: onLiveMessage_def handleLiveMessage_def finalized_def
      split: option.splits live_name.splits)

lemma live_partial_nonneg:
  assumes "partial_nonneg (currentTurn v)" and "event_nonneg (LiveMessage m)"
  shows "partial_nonneg (currentTurn (onLiveMessage m v))"
proof (cases m)
  case None
  then show ?thesis using assms by (simp add: onLiveMessage_def)
next
  case (Some ev)
  show ?thesis
  proof (cases "payload ev")
    case None
    then show ?thesis using assms Some
      by (cases "event_name ev"; cases "currentTurn v")
         (simp_all add: onLiveMessage_def handleLiveMessage_def partial_nonneg_def spread_def)
  next
    case (Some pl)
    then show ?thesis using assms \<open>m = Some ev\<close>
      by (cases "event_name ev"; cases "currentTurn v")
         (simp_all add: onLiveMessage_def handleLiveMessage_def partial_nonneg_def spread_def
            payload_nonneg_def)
  qed
qed

lemma finalized_nonneg:
  assumes "partial_nonneg (currentTurn v)" and "event_nonneg (LiveMessage m)"
  shows "list_all turn_nonneg (finalized m v)"
proof (cases m)
  case None
  then show ?thesis by (simp add: finalized_def)
next
  case (Some ev)
  show ?thesis
  proof (cases "payload ev")
    case None
    then show ?thesis using Some
      by (cases "event_name ev"; cases "currentTurn v") (simp_all add: finalized_def)
  next
    case (Some pl)
    then show ?thesis using assms \<open>m = Some ev\<close>
      by (cases "event_name ev"; cases "currentTurn v")
         (simp_all add: finalized_def full_turn_of_def turn_nonneg_def partial_nonneg_def
            payload_nonneg_def)
  qed
qed

lemma view_step_nonneg:
  assumes "list_all turn_nonneg (turns v)" and "partial_nonneg (currentTurn v)"
    and "event_nonneg e"
  shows "list_all turn_nonneg (turns (view_step e v)) \<and>
         partial_nonneg (currentTurn (view_step e v))"
proof (cases e)
  case (LiveMessage m)
  then show ?thesis
    using assms live_turns [of m v] live_partial_nonneg [of v m] finalized_nonneg [of v m]
    by simp
next
  case (LoadResolved d)
  then show ?thesis using assms by (simp add: loadResolved_def)
next
  case (LoadRejected msg)
  then show ?thesis using assms by (simp add: loadRejected_def)
qed

lemma view_run_nonneg:
  "list_all turn_nonneg (turns v) \<Longrightarrow> partial_nonneg (currentTurn v) \<Longrightarrow>
   list_all event_nonneg es \<Longrightarrow> list_all turn_nonneg (turns (view_run v es))"
proof (induction es arbitrary: v)
  case Nil
  then show ?case by simp
next
  case (Cons e es)
  then show ?case using view_step_nonneg [of v e] by simp
qed

lemma live_turn_run:
  "view_run view_initial (live_turn stt) =
     \<lparr>call_data = None, loading = True, loadError = None,
      turns = [\<lparr>stt_ms = stt, llm_ms = 500, tts_ms = 400, user_text = str ''hi'',
                assistant_text = str ''Hello''\<rparr>],
      currentTurn = None\<rparr>"
  by (simp add: live_turn_def view_defs)

lemma live_turn_nonneg: "list_all event_nonneg (live_turn 300)"
  by (simp add: live_turn_def payload_nonneg_def)

lemma view_run_append: "view_run v (es @ fs) = view_run (view_run v es) fs"
  by (induction es arbitrary: v) simp_all




section \<open>End of the conversation\<close>

lemma playing_reply_state:
  "playing_reply c ec = (speaking c ec)\<lparr>isProcessing := False, calls := Map.empty\<rparr>"
  by (cases ec; cases c)
     (simp_all add: playing_reply_def speaking_state playResolved_def finallyBlock_def
        doRestart_def Let_def)

text \<open>
  C2. Continuous mode, a reply with \<open>end_conversation\<close> is playing. When it ends, the
  voice-session end request is sent. When that request is rejected, nothing else happens:
  the stream is still held, \<open>isListening\<close> is still set and no stop has been requested
  (\<open>endVoiceSession().then\<close> has no rejection handler). When the request is fulfilled, the
  stream is released and \<open>isListening\<close> is cleared.
\<close>

theorem end_request_rejected_keeps_capture:
  "requests (run (playing_reply True True) end_rejected) =
     [TranscribeReq, ChatReq [\<lparr>role = User, content = str ''hi'', latency = None\<rparr>],
      TtsReq (str ''Hello''), EndVoiceSessionReq] \<and>
   streamRef (run (playing_reply True True) end_rejected) \<and>
   isListening (run (playing_reply True True) end_rejected) \<and>
   \<not> userRequestedStopRef (run (playing_reply True True) end_rejected) \<and>
   playing (run (playing_reply True True) end_rejected) = [] \<and>
   \<not> streamRef (run (playing_reply True True) end_resolved) \<and>
   \<not> isListening (run (playing_reply True True) end_resolved) \<and>
   userRequestedStopRef (run (playing_reply True True) end_resolved)"
  by (simp add: end_rejected_def end_resolved_def playing_reply_state speaking_state
      onended_def pause_def send_def Let_def endVoiceSessionThen_def stopRecordingAndSend_def
      cancelAnimation_def tick_def)

text \<open>
  After two grants, the stream and the recorder of the first are in no ref; the stop that
  the user requests then releases the second stream only.
\<close>

lemma double_grant_keeps_first_stream:
  "lostStreams (run (initial True True) double_grant) = 1 \<and>
   lostRecorders (run (initial True True) double_grant) = 1 \<and>
   \<not> streamRef (run (initial True True) (double_grant @ [(tick 2000, Click)])) \<and>
   lostStreams (run (initial True True) (double_grant @ [(tick 2000, Click)])) = 1 \<and>
   lostRecorders (run (initial True True) (double_grant @ [(tick 2000, Click)])) = 1"
  by (simp add: double_grant_def hook_defs Let_def)

section \<open>Capture and playback\<close>

lemma bargeIn_disabled: "bargeIn rms s = s"
  by (simp add: bargeIn_def BARGE_IN_ENABLED_def split: option.splits)

lemma restarted_state:
  "restarted =
     \<lparr>isListening = True, isProcessing = False, error = None, continuousVoiceMode = True,
      micAvailable = True, messages = [], streamRef = True, recorderRef = Some Recording,
      strayRecorders = 1, lostStreams = 0, lostRecorders = 0, chunksRef = [],
      analyserRef = True, silenceStartRef = None, hasSpokenRef = False,
      animationRef = Some 19, recordingStartRef = Some 3000, userRequestedStopRef = False,
      currentTTSRef = None, rafPending = [18, 19], rafNext = 20, playing = [], urlNext = 0,
      calls = Map.empty, callNext = 1, pendingGetUserMedia = 0, pendingEndVoiceSession = 0,
      requests = [TranscribeReq]\<rparr>"
  by (simp add: restarted_def turn_started_state str_def trim_def is_ws_def
      transcribeDone_def finallyBlock_def doRestart_def restartRecording_def
      requestAnimationFrame_def Let_def tick_def)

lemma second_sent_state:
  "second_sent =
     \<lparr>isListening = True, isProcessing = True, error = None, continuousVoiceMode = True,
      micAvailable = True, messages = [], streamRef = True, recorderRef = Some Inactive,
      strayRecorders = 1, lostStreams = 0, lostRecorders = 0, chunksRef = [],
      analyserRef = True, silenceStartRef = None, hasSpokenRef = False,
      animationRef = None, recordingStartRef = Some 3000, userRequestedStopRef = False,
      currentTTSRef = None, rafPending = [], rafNext = 24, playing = [], urlNext = 0,
      calls = [1 \<mapsto> \<lparr>continuous = True, phase = AwaitTranscribe 4700\<rparr>], callNext = 2,
      pendingGetUserMedia = 0, pendingEndVoiceSession = 0,
      requests = [TranscribeReq, TranscribeReq]\<rparr>"
  by (simp add: second_sent_def restarted_state second_utterance_def hook_defs Let_def)

lemma second_playing_state:
  "second_playing =
     \<lparr>isListening = True, isProcessing = False, error = None, continuousVoiceMode = True,
      micAvailable = True,
      messages = [\<lparr>role = User, content = str ''hi'', latency = None\<rparr>,
        \<lparr>role = Assistant, content = str ''Hello'',
         latency = Some \<lparr>stt_ms = 300, llm_ms = 500, tts_ms = 500\<rparr>\<rparr>],
      streamRef = True, recorderRef = Some Inactive,
      strayRecorders = 1, lostStreams = 0, lostRecorders = 0, chunksRef = [],
      analyserRef = True, silenceStartRef = None, hasSpokenRef = False,
      animationRef = None, recordingStartRef = Some 3000, userRequestedStopRef = False,
      currentTTSRef = Some 0, rafPending = [], rafNext = 24,
      playing = [\<lparr>url = 0, a_endConversation = False, a_continuous = True\<rparr>], urlNext = 1,
      calls = Map.empty, callNext = 2, pendingGetUserMedia = 0, pendingEndVoiceSession = 0,
      requests = [TranscribeReq, TranscribeReq,
        ChatReq [\<lparr>role = User, content = str ''hi'', latency = None\<rparr>],
        TtsReq (str ''Hello'')]\<rparr>"
  by (simp add: second_playing_def second_sent_state second_reply_def transcribeDone_def
      chatDone_def ttsDone_def finallyBlock_def addMessage_def send_def Let_def js_round_def
      tick_def trim_hi str_hi strip_Hello)

text \<open>
  C3. Continuous mode. After a blank transcript both \<open>doRestart\<close> calls (the one before
  \<open>return\<close> and the one in \<open>finally\<close>) start a recorder: the second is held in \<open>recorderRef\<close>,
  the first is not stopped and records on. When the next utterance has been answered and
  its reply is playing, the recorder of \<open>recorderRef\<close> is stopped and the first one is still
  recording.
\<close>

theorem stray_recorder_during_playback:
  "recorderRef restarted = Some Recording \<and> strayRecorders restarted = 1 \<and>
   rafPending restarted = [18, 19] \<and>
   playing second_playing = [\<lparr>url = 0, a_endConversation = False, a_continuous = True\<rparr>] \<and>
   recorderRef second_playing = Some Inactive \<and> strayRecorders second_playing = 1 \<and>
   streamRef second_playing"
  by (simp add: restarted_state second_playing_state)

end
